theory Spec2Isabelle
  imports Complex_Main
begin

section \<open>Strings as the program uses them\<close>

text \<open>
  File names, patterns and messages are \<open>string\<close>s (lists of 8-bit characters).
  The helpers below are the few operations of Python's \<open>str\<close> that the flash
  orchestration code relies on, restricted to that character range; \<open>lower\<close> changes
  the letters \<open>A\<close> to \<open>Z\<close> only, which is all that the prefix tests of the code
  depend on.
\<close>

definition startswith :: "string \<Rightarrow> string \<Rightarrow> bool" where
  "startswith s p = (take (length p) s = p)"

definition lower_char :: "char \<Rightarrow> char" where
  "lower_char c =
     (case map_of (zip ''ABCDEFGHIJKLMNOPQRSTUVWXYZ'' ''abcdefghijklmnopqrstuvwxyz'') c of
        Some d \<Rightarrow> d
      | None \<Rightarrow> c)"

definition lower :: "string \<Rightarrow> string" where
  "lower s = map lower_char s"

definition is_space :: "char \<Rightarrow> bool" where
  "is_space c = (c \<in> set [CHR 0x09, CHR 0x0A, CHR 0x0B, CHR 0x0C, CHR 0x0D,
                            CHR 0x1C, CHR 0x1D, CHR 0x1E, CHR 0x1F, CHR 0x20,
                            CHR 0x85, CHR 0xA0])"

definition strip :: "string \<Rightarrow> string" where
  "strip s = rev (dropWhile is_space (rev (dropWhile is_space s)))"

definition digit_char :: "nat \<Rightarrow> char" where
  "digit_char d = ''0123456789'' ! d"

function str_nat :: "nat \<Rightarrow> string" where
  "str_nat n = (if n < 10 then [digit_char n] else str_nat (n div 10) @ [digit_char (n mod 10)])"
  by pat_completeness auto
termination
  by (relation "measure id") auto

declare str_nat.simps [simp del]

definition str_int :: "int \<Rightarrow> string" where
  "str_int i = (if i < 0 then CHR ''-'' # str_nat (nat (- i)) else str_nat (nat i))"

text \<open>Python's \<open>x or default\<close> on an optional string: \<open>None\<close> and the empty string
  both give the default.\<close>

definition or_default :: "string option \<Rightarrow> string \<Rightarrow> string" where
  "or_default v d = (case v of None \<Rightarrow> d | Some s \<Rightarrow> if s = [] then d else s)"


section \<open>Data model (models.py)\<close>

record DeviceEntry =
  key :: string
  name :: string
  mcu :: string
  serial_pattern :: "string option"
  flash_command :: "string option"
  bootloader_method :: "string option"
  canbus_uuid :: "string option"
  canbus_interface :: "string option"
  uf2_mount_path :: "string option"
  sdcard_board :: "string option"

definition is_can_device :: "DeviceEntry \<Rightarrow> bool" where
  "is_can_device e = (canbus_uuid e \<noteq> None)"

record GlobalConfig =
  klipper_dir :: string
  katapult_dir :: string
  stagger_delay :: real
  can_stagger_delay :: real

record DiscoveredDevice =
  path :: string
  filename :: string

record FlashResult =
  flash_success :: bool
  flash_method :: string
  flash_elapsed_seconds :: real
  flash_error_message :: "string option"

record BootloaderResult =
  boot_success :: bool
  boot_device_path :: "string option"
  boot_error_message :: "string option"

text \<open>How one call of \<open>subprocess.run\<close> can end: the process exits with a return code,
  the per-call timeout expires (\<open>TimeoutExpired\<close>), the process cannot be launched
  (\<open>OSError\<close>, with its text), or something else is raised and propagates
  (for instance \<open>KeyboardInterrupt\<close>).\<close>

datatype run_outcome =
    Exited int
  | Timeout_expired
  | Os_error string
  | Raised_other string


section \<open>CAN flash with retries (flasher.py, flash_katapult_can)\<close>

definition TIMEOUT_FLASH :: int where "TIMEOUT_FLASH = 60"
definition TIMEOUT_CAN_FLASH :: int where "TIMEOUT_CAN_FLASH = 120"
definition CAN_RETRY_ATTEMPTS :: int where "CAN_RETRY_ATTEMPTS = 3"

text \<open>
  What \<open>flash_katapult_can\<close> sees of the outside world: whether \<open>flashtool.py\<close> exists
  (and how its path prints), how the transfer tool ends on the attempt with a given
  number, and the monotonic time elapsed when a result is built.
\<close>

record can_env =
  flashtool_exists :: bool
  flashtool_path :: string
  run_flashtool :: "int \<Rightarrow> run_outcome"
  elapsed :: real

datatype can_effect = Subprocess_run int | Sleep real

text \<open>How the \<open>for attempt in range(1, max_retries + 1)\<close> loop is left.\<close>

datatype loop_exit =
    Return_success
  | Loop_done string
  | Propagate string

fun retry_loop ::
  "(int \<Rightarrow> run_outcome) \<Rightarrow> int \<Rightarrow> int \<Rightarrow> string \<Rightarrow> int list \<Rightarrow> loop_exit \<times> can_effect list"
where
  "retry_loop run timeout max_retries last_error [] = (Loop_done last_error, [])"
| "retry_loop run timeout max_retries last_error (attempt # rest) =
     (case run attempt of
        Exited rc \<Rightarrow>
          if rc = 0 then (Return_success, [Subprocess_run attempt])
          else
            (let (r, effs) = retry_loop run timeout max_retries
                               ''flashtool.py returned non-zero exit code'' rest
             in (r, Subprocess_run attempt #
                    (if attempt < max_retries then [Sleep 2] else []) @ effs))
      | Timeout_expired \<Rightarrow>
          (let (r, effs) = retry_loop run timeout max_retries
                             (''CAN flash timeout ('' @ str_int timeout @ ''s)'') rest
           in (r, Subprocess_run attempt #
                  (if attempt < max_retries then [Sleep 2] else []) @ effs))
      | Os_error exc \<Rightarrow>
          (Loop_done (''Failed to run flashtool.py: '' @ exc), [Subprocess_run attempt])
      | Raised_other exc \<Rightarrow> (Propagate exc, [Subprocess_run attempt]))"

definition flash_katapult_can ::
  "can_env \<Rightarrow> int \<Rightarrow> int \<Rightarrow> (string + FlashResult) \<times> can_effect list"
where
  "flash_katapult_can env timeout max_retries =
     (if \<not> flashtool_exists env then
        (Inr \<lparr>flash_success = False, flash_method = ''katapult_can'',
              flash_elapsed_seconds = elapsed env,
              flash_error_message =
                Some (''Katapult flashtool not found: '' @ flashtool_path env)\<rparr>, [])
      else
        (case retry_loop (run_flashtool env) timeout max_retries [] [1..max_retries] of
           (Return_success, effs) \<Rightarrow>
             (Inr \<lparr>flash_success = True, flash_method = ''katapult_can'',
                   flash_elapsed_seconds = elapsed env,
                   flash_error_message = None\<rparr>, effs)
         | (Loop_done last_error, effs) \<Rightarrow>
             (Inr \<lparr>flash_success = False, flash_method = ''katapult_can'',
                   flash_elapsed_seconds = elapsed env,
                   flash_error_message =
                     Some (last_error @ '' (after '' @ str_int max_retries @ '' attempts)'')\<rparr>,
              effs)
         | (Propagate exc, effs) \<Rightarrow> (Inl exc, effs)))"

text \<open>The attempts that were actually started, in order.\<close>

fun attempts_run :: "can_effect list \<Rightarrow> int list" where
  "attempts_run [] = []"
| "attempts_run (Subprocess_run k # effs) = k # attempts_run effs"
| "attempts_run (Sleep d # effs) = attempts_run effs"

text \<open>A run of the transfer tool in which every timed-out attempt is replaced by one
  that exits with code 1, for comparing how the loop treats the two.\<close>

fun timeout_as_exit :: "run_outcome \<Rightarrow> run_outcome" where
  "timeout_as_exit Timeout_expired = Exited 1"
| "timeout_as_exit (Exited rc) = Exited rc"
| "timeout_as_exit (Os_error e) = Os_error e"
| "timeout_as_exit (Raised_other e) = Raised_other e"

text \<open>Two ways of leaving the loop, and two outcomes of \<open>flash_katapult_can\<close>, that differ
  at most in the text of the error message.\<close>

fun same_exit_kind :: "loop_exit \<Rightarrow> loop_exit \<Rightarrow> bool" where
  "same_exit_kind Return_success Return_success = True"
| "same_exit_kind (Loop_done a) (Loop_done b) = True"
| "same_exit_kind (Propagate a) (Propagate b) = (a = b)"
| "same_exit_kind a b = False"

fun same_up_to_message :: "string + FlashResult \<Rightarrow> string + FlashResult \<Rightarrow> bool" where
  "same_up_to_message (Inl a) (Inl b) = (a = b)"
| "same_up_to_message (Inr a) (Inr b) =
     (flash_success a = flash_success b \<and> flash_method a = flash_method b \<and>
      flash_elapsed_seconds a = flash_elapsed_seconds b)"
| "same_up_to_message (Inl a) (Inr b) = False"
| "same_up_to_message (Inr a) (Inl b) = False"


section \<open>Flash dispatcher (flasher.py, execute_flash)\<close>

text \<open>
  The five transfer mechanisms are the functions \<open>flash_katapult\<close>, \<open>flash_make\<close>,
  \<open>flash_sdcard\<close>, \<open>flash_uf2\<close> and \<open>flash_katapult_can\<close>. Each of them runs external
  processes or copies files; the dispatcher only chooses which one to call and with which
  arguments. A call is recorded with the arguments the dispatcher passes, and the outcome
  of a call is whatever the mechanism returns for it.
\<close>

datatype flash_call =
    Call_flash_katapult string string string string int
  | Call_flash_make string string int
  | Call_flash_sdcard string string string string int
  | Call_flash_uf2 string "string option" int
  | Call_flash_katapult_can string string string string int

fun strategy_of :: "flash_call \<Rightarrow> string" where
  "strategy_of (Call_flash_katapult d f kd kl t) = ''katapult''"
| "strategy_of (Call_flash_make d kl t) = ''make_flash''"
| "strategy_of (Call_flash_sdcard d f kl b t) = ''flash_sdcard''"
| "strategy_of (Call_flash_uf2 f m t) = ''uf2_mount''"
| "strategy_of (Call_flash_katapult_can u i f kd t) = ''katapult_can''"

definition recognized_flash_commands :: "string list" where
  "recognized_flash_commands =
     [''katapult'', ''katapult_can'', ''make_flash'', ''flash_sdcard'', ''uf2_mount'']"

definition execute_flash ::
  "(flash_call \<Rightarrow> FlashResult) \<Rightarrow> DeviceEntry \<Rightarrow> string \<Rightarrow> string \<Rightarrow> GlobalConfig \<Rightarrow> int
     \<Rightarrow> FlashResult \<times> flash_call list"
where
  "execute_flash mech entry device_path firmware_path config timeout =
     (case flash_command entry of
        None \<Rightarrow>
          (\<lparr>flash_success = False, flash_method = ''unknown'', flash_elapsed_seconds = 0,
            flash_error_message = Some ''No flash_command configured for device''\<rparr>, [])
      | Some fc \<Rightarrow>
          if fc = ''katapult'' then
            (let c = Call_flash_katapult device_path firmware_path (katapult_dir config)
                       (klipper_dir config) timeout
             in (mech c, [c]))
          else if fc = ''make_flash'' then
            (if is_can_device entry then
               (\<lparr>flash_success = False, flash_method = ''make_flash'',
                 flash_elapsed_seconds = 0,
                 flash_error_message =
                   Some ''CAN devices cannot use make_flash; configure Katapult CAN''\<rparr>, [])
             else
               (let c = Call_flash_make device_path (klipper_dir config) timeout
                in (mech c, [c])))
          else if fc = ''flash_sdcard'' then
            (let c = Call_flash_sdcard device_path firmware_path (klipper_dir config)
                       (or_default (sdcard_board entry) []) 120
             in (mech c, [c]))
          else if fc = ''uf2_mount'' then
            (let c = Call_flash_uf2 firmware_path (uf2_mount_path entry) 15
             in (mech c, [c]))
          else if fc = ''katapult_can'' then
            (if \<not> is_can_device entry then
               (\<lparr>flash_success = False, flash_method = ''katapult_can'',
                 flash_elapsed_seconds = 0,
                 flash_error_message =
                   Some ''katapult_can requires a CAN device UUID configuration''\<rparr>, [])
             else
               (let uuid = strip (or_default (canbus_uuid entry) [])
                in if uuid = [] then
                     (\<lparr>flash_success = False, flash_method = ''katapult_can'',
                       flash_elapsed_seconds = 0,
                       flash_error_message =
                         Some ''katapult_can requires a non-empty CAN UUID''\<rparr>, [])
                   else
                     (let c = Call_flash_katapult_can uuid
                                (or_default (canbus_interface entry) ''can0'')
                                firmware_path (katapult_dir config) TIMEOUT_CAN_FLASH
                      in (mech c, [c]))))
          else
            (\<lparr>flash_success = False, flash_method = fc, flash_elapsed_seconds = 0,
              flash_error_message = Some (''Unknown flash command: '' @ fc)\<rparr>, []))"


section \<open>Sample registrations\<close>

text \<open>Two registrations as they appear in a registry file: a USB board flashed through
  Katapult and a CAN toolhead. They serve as concrete inputs.\<close>

definition octopus :: DeviceEntry where
  "octopus =
     \<lparr>key = ''octopus-pro'', name = ''Octopus Pro v1.1'', mcu = ''stm32h723'',
      serial_pattern = Some ''usb-Klipper_stm32h723xx_29001A*'',
      flash_command = Some ''katapult'', bootloader_method = Some ''usb'',
      canbus_uuid = None, canbus_interface = None,
      uf2_mount_path = None, sdcard_board = None\<rparr>"

definition toolhead :: DeviceEntry where
  "toolhead =
     \<lparr>key = ''ebb36'', name = ''EBB36'', mcu = ''stm32g0b1'',
      serial_pattern = None,
      flash_command = Some ''katapult_can'', bootloader_method = Some ''can'',
      canbus_uuid = Some ''48ca7afe7a44'', canbus_interface = Some ''can0'',
      uf2_mount_path = None, sdcard_board = None\<rparr>"

definition sample_config :: GlobalConfig where
  "sample_config =
     \<lparr>klipper_dir = ''~/klipper'', katapult_dir = ''~/katapult'',
      stagger_delay = 2, can_stagger_delay = 5\<rparr>"

text \<open>A transfer mechanism that always reports success, and an environment of the CAN
  transfer tool in which the first attempt exits non-zero and the second cannot be
  launched.\<close>

definition always_ok :: "flash_call \<Rightarrow> FlashResult" where
  "always_ok c =
     \<lparr>flash_success = True, flash_method = strategy_of c, flash_elapsed_seconds = 12,
      flash_error_message = None\<rparr>"


definition stuck_can_env :: can_env where
  "stuck_can_env =
     \<lparr>flashtool_exists = True, flashtool_path = ''/home/pi/katapult/scripts/flashtool.py'',
      run_flashtool = (\<lambda>k. Timeout_expired), elapsed = 366\<rparr>"

text \<open>An environment in which the first attempt times out and the second cannot be
  launched.\<close>

definition timeout_then_oserror_env :: can_env where
  "timeout_then_oserror_env =
     \<lparr>flashtool_exists = True, flashtool_path = ''/home/pi/katapult/scripts/flashtool.py'',
      run_flashtool = (\<lambda>k. if k = 1 then Timeout_expired else Os_error ''No such file''),
      elapsed = 121\<rparr>"


section \<open>Service lifecycle guard (service.py)\<close>

text \<open>
  Exceptions that travel through the guard and its callers. \<open>KeyboardInterrupt\<close> is a
  \<open>BaseException\<close> that is not an \<open>Exception\<close>; the other three are caught by
  \<open>except Exception\<close>.
\<close>

datatype exn =
    ServiceError string
  | OSError string
  | Exception string
  | KeyboardInterrupt


datatype 'a completion = Normal 'a | Raise exn

text \<open>How a \<open>subprocess.run(..., capture_output=True)\<close> call of \<open>systemctl\<close> ends:
  with a return code, stdout and stderr, with \<open>TimeoutExpired\<close>, with an \<open>OSError\<close>,
  or interrupted by the operator.\<close>

datatype captured =
    Completed int string string
  | Run_timeout
  | Run_oserror string
  | Run_interrupt














section \<open>Single-device flash: the guarded part of cmd_flash (flash.py)\<close>








definition octopus_klipper_path :: string where
  "octopus_klipper_path = ''/dev/serial/by-id/usb-Klipper_stm32h723xx_29001A-if00''"


section \<open>Device signature and two-phase polling (bootloader.py)\<close>

definition TIMEOUT_BOOTLOADER_CMD :: int where "TIMEOUT_BOOTLOADER_CMD = 10"
definition TIMEOUT_REENUMERATION :: real where "TIMEOUT_REENUMERATION = 10"
definition POLL_INTERVAL :: real where "POLL_INTERVAL = 1"
definition SERIAL_DIR :: string where "SERIAL_DIR = ''/dev/serial/by-id''"

definition is_alnum :: "char \<Rightarrow> bool" where
  "is_alnum c =
     (c \<in> set ''abcdefghijklmnopqrstuvwxyzABCDEFGHIJKLMNOPQRSTUVWXYZ0123456789'')"

definition is_hex :: "char \<Rightarrow> bool" where
  "is_hex c = (c \<in> set ''ABCDEFabcdef0123456789'')"

text \<open>
  The regular expression \<open>usb-(?:Klipper|katapult)_([a-zA-Z0-9]+)_([A-Fa-f0-9]+)\<close>
  tried at the start of a string. Both groups are greedy; the first cannot contain the
  underscore that must follow it, so it is the longest alphanumeric run, and the second is
  the longest run of hexadecimal digits.
\<close>

definition signature_at :: "string \<Rightarrow> (string \<times> string) option" where
  "signature_at s =
     (case (if startswith s ''usb-Klipper_'' then Some (drop 12 s)
            else if startswith s ''usb-katapult_'' then Some (drop 13 s)
            else None) of
        None \<Rightarrow> None
      | Some r \<Rightarrow>
          (let m = takeWhile is_alnum r in
           if m = [] then None
           else case dropWhile is_alnum r of
                  [] \<Rightarrow> None
                | c # r3 \<Rightarrow>
                    if c \<noteq> CHR ''_'' then None
                    else (let h = takeWhile is_hex r3 in
                          if h = [] then None else Some (lower m, h))))"

text \<open>\<open>_SIGNATURE_RE.search\<close>: the leftmost position at which the expression matches.\<close>

fun extract_device_signature :: "string \<Rightarrow> (string \<times> string) option" where
  "extract_device_signature [] = signature_at []"
| "extract_device_signature (c # s) =
     (case signature_at (c # s) of
        Some g \<Rightarrow> Some g
      | None \<Rightarrow> extract_device_signature s)"

definition basename :: "string \<Rightarrow> string" where
  "basename p = rev (takeWhile (\<lambda>c. c \<noteq> CHR ''/'') (rev p))"

definition path_join :: "string \<Rightarrow> string \<Rightarrow> string" where
  "path_join a b =
     (if startswith b ''/'' then b
      else if a = [] \<or> last a = CHR ''/'' then a @ b
      else a @ ''/'' @ b)"

text \<open>
  The polling loops read the monotonic clock in their loop condition and, when the
  deadline has not passed, list the endpoint directory. A trace is the list of these
  observations in the order the function makes them: the clock reading of a loop test
  and the listing that a scan at that moment returns. A function that is still polling
  when the trace ends has not returned: its result is \<open>None\<close>; \<open>Some r\<close> is the
  return value \<open>r\<close>.
\<close>

type_synonym scan_trace = "(real \<times> string list) list"

datatype poll_event =
    Scan_phase1 "string list"
  | Scan_phase2 "string list"
  | Poll_sleep real

definition same_signature :: "(string \<times> string) option \<Rightarrow> string \<Rightarrow> bool" where
  "same_signature original_sig fname =
     (let sig = extract_device_signature fname in
      sig \<noteq> None \<and> original_sig \<noteq> None \<and> sig = original_sig)"

fun reappearance_phase ::
  "(string \<times> string) option \<Rightarrow> real \<Rightarrow> real \<Rightarrow> scan_trace
     \<Rightarrow> string option option \<times> poll_event list"
where
  "reappearance_phase original_sig deadline interval [] = (None, [])"
| "reappearance_phase original_sig deadline interval ((t, filenames) # rest) =
     (if t < deadline then
        (case find (same_signature original_sig) filenames of
           Some fname \<Rightarrow> (Some (Some (path_join SERIAL_DIR fname)), [Scan_phase2 filenames])
         | None \<Rightarrow>
             (let (r, evs) = reappearance_phase original_sig deadline interval rest
              in (r, Scan_phase2 filenames #
                     (if interval > 0 then [Poll_sleep interval] else []) @ evs)))
      else (Some None, []))"

fun disappearance_phase ::
  "string \<Rightarrow> (string \<times> string) option \<Rightarrow> real \<Rightarrow> real \<Rightarrow> scan_trace
     \<Rightarrow> string option option \<times> poll_event list"
where
  "disappearance_phase original_filename original_sig deadline interval [] = (None, [])"
| "disappearance_phase original_filename original_sig deadline interval
       ((t, filenames) # rest) =
     (if t < deadline then
        (if original_filename \<notin> set filenames then
           (let (r, evs) = reappearance_phase original_sig deadline interval rest
            in (r, Scan_phase1 filenames # evs))
         else
           (let (r, evs) = disappearance_phase original_filename original_sig deadline
                             interval rest
            in (r, Scan_phase1 filenames #
                   (if interval > 0 then [Poll_sleep interval] else []) @ evs)))
      else (Some None, []))"

text \<open>\<open>_poll_for_reenumeration\<close>; \<open>start\<close> is the clock reading from which the deadline is
  computed. The argument \<open>serial_pattern\<close> is not used by the function.\<close>

definition poll_for_reenumeration ::
  "string \<Rightarrow> string option \<Rightarrow> real \<Rightarrow> real \<Rightarrow> real \<Rightarrow> scan_trace
     \<Rightarrow> string option option \<times> poll_event list"
where
  "poll_for_reenumeration original_path pattern timeout interval start trace =
     disappearance_phase (basename original_path)
       (extract_device_signature (basename original_path)) (start + timeout) interval trace"

definition is_phase2 :: "poll_event \<Rightarrow> bool" where
  "is_phase2 e = (case e of Scan_phase2 fs \<Rightarrow> True | _ \<Rightarrow> False)"

definition octopus_katapult_name :: string where
  "octopus_katapult_name = ''usb-katapult_stm32h723xx_29001A-if00''"

definition octopus_klipper_name :: string where
  "octopus_klipper_name = ''usb-Klipper_stm32h723xx_29001A-if00''"

text \<open>A board that never leaves its current mode although an endpoint with its signature
  shows up, polled once a second for ten seconds; and a board that reboots into its
  bootloader.\<close>

definition never_left_trace :: scan_trace where
  "never_left_trace =
     map (\<lambda>t. (t, [octopus_klipper_name, octopus_katapult_name]))
       [100.0, 101.0, 102.1, 103.1, 104.1, 105.2, 106.2, 107.2, 108.3, 109.3, 110.3]"

definition reboot_trace :: scan_trace where
  "reboot_trace =
     [(100.0, [octopus_klipper_name]), (101.0, []), (101.1, []),
      (102.1, [octopus_katapult_name])]"


section \<open>Bootloader entry handlers (bootloader.py)\<close>

datatype input_outcome = Line_entered | Input_eof | Input_interrupt

text \<open>
  What a handler sees of the outside world: how its mode-change command ends, whether
  \<open>flashtool.py\<close> exists, what the operator does at the prompt, the clock reading from
  which the polling deadline is computed, and the trace of the polling.
\<close>

record boot_env =
  mode_change_run :: captured
  boot_flashtool_exists :: bool
  boot_flashtool_path :: string
  operator_input :: input_outcome
  poll_start :: real
  poll_trace :: scan_trace

datatype boot_event =
    Ev_mode_change_cmd
  | Ev_info_prompt
  | Ev_input
  | Ev_poll poll_event
  | Ev_stagger_sleep real

definition boot_failure :: "string \<Rightarrow> BootloaderResult" where
  "boot_failure msg =
     \<lparr>boot_success = False, boot_device_path = None, boot_error_message = Some msg\<rparr>"

text \<open>
  The three handlers end with the same statements: poll for re-enumeration, fail with
  the handler's message when no path comes back, otherwise sleep for the stagger delay
  and succeed with the new path. A handler that is still polling at the end of the
  trace has not returned (\<open>None\<close>).
\<close>

definition poll_and_finish ::
  "string \<Rightarrow> string \<Rightarrow> DeviceEntry \<Rightarrow> real \<Rightarrow> boot_env
     \<Rightarrow> BootloaderResult completion option \<times> boot_event list"
where
  "poll_and_finish msg device_path device_entry stagger env =
     (case poll_for_reenumeration device_path (serial_pattern device_entry)
             TIMEOUT_REENUMERATION POLL_INTERVAL (poll_start env) (poll_trace env) of
        (None, evs) \<Rightarrow> (None, map Ev_poll evs)
      | (Some None, evs) \<Rightarrow> (Some (Normal (boot_failure msg)), map Ev_poll evs)
      | (Some (Some new_path), evs) \<Rightarrow>
          (Some (Normal \<lparr>boot_success = True, boot_device_path = Some new_path,
                          boot_error_message = None\<rparr>),
           map Ev_poll evs @ (if stagger > 0 then [Ev_stagger_sleep stagger] else [])))"

definition enter_usb ::
  "string \<Rightarrow> DeviceEntry \<Rightarrow> real \<Rightarrow> boot_env
     \<Rightarrow> BootloaderResult completion option \<times> boot_event list"
where
  "enter_usb device_path device_entry stagger env =
     (case mode_change_run env of
        Run_timeout \<Rightarrow>
          (Some (Normal (boot_failure
             (''USB bootloader entry timed out ('' @ str_int TIMEOUT_BOOTLOADER_CMD @ ''s)''))),
           [Ev_mode_change_cmd])
      | Run_oserror exc \<Rightarrow>
          (Some (Normal (boot_failure (''Failed to run USB bootloader entry: '' @ exc))),
           [Ev_mode_change_cmd])
      | Run_interrupt \<Rightarrow> (Some (Raise KeyboardInterrupt), [Ev_mode_change_cmd])
      | Completed rc out err \<Rightarrow>
          (let (r, evs) = poll_and_finish
                 ''Device did not re-enumerate after USB bootloader entry''
                 device_path device_entry stagger env
           in (r, Ev_mode_change_cmd # evs)))"

definition enter_serial ::
  "string \<Rightarrow> DeviceEntry \<Rightarrow> real \<Rightarrow> boot_env
     \<Rightarrow> BootloaderResult completion option \<times> boot_event list"
where
  "enter_serial device_path device_entry stagger env =
     (if \<not> boot_flashtool_exists env then
        (Some (Normal (boot_failure
           (''Katapult flashtool not found: '' @ boot_flashtool_path env))), [])
      else
        (case mode_change_run env of
           Run_timeout \<Rightarrow>
             (Some (Normal (boot_failure
                (''Serial bootloader entry timed out ('' @ str_int TIMEOUT_BOOTLOADER_CMD @
                 ''s)''))),
              [Ev_mode_change_cmd])
         | Run_oserror exc \<Rightarrow>
             (Some (Normal (boot_failure (''Failed to run flashtool.py: '' @ exc))),
              [Ev_mode_change_cmd])
         | Run_interrupt \<Rightarrow> (Some (Raise KeyboardInterrupt), [Ev_mode_change_cmd])
         | Completed rc out err \<Rightarrow>
             (let (r, evs) = poll_and_finish
                    ''Device did not re-enumerate after serial bootloader entry''
                    device_path device_entry stagger env
              in (r, Ev_mode_change_cmd # evs))))"

text \<open>\<open>out_present\<close> tells whether an output object was passed (\<open>out is not None\<close>).\<close>

definition enter_manual ::
  "string \<Rightarrow> DeviceEntry \<Rightarrow> real \<Rightarrow> bool \<Rightarrow> boot_env
     \<Rightarrow> BootloaderResult completion option \<times> boot_event list"
where
  "enter_manual device_path device_entry stagger out_present env =
     (let prompt = (if out_present then [Ev_info_prompt] else []) in
      case operator_input env of
        Input_eof \<Rightarrow>
          (Some (Normal (boot_failure ''Manual bootloader entry cancelled'')),
           prompt @ [Ev_input])
      | Input_interrupt \<Rightarrow>
          (Some (Normal (boot_failure ''Manual bootloader entry cancelled'')),
           prompt @ [Ev_input])
      | Line_entered \<Rightarrow>
          if flash_command device_entry = Some ''uf2_mount'' then
            (Some (Normal \<lparr>boot_success = True, boot_device_path = None,
                            boot_error_message = None\<rparr>),
             prompt @ [Ev_input])
          else
            (let (r, evs) = poll_and_finish
                   ''Device did not re-enumerate after manual bootloader entry''
                   device_path device_entry stagger env
             in (r, prompt @ [Ev_input] @ evs)))"

text \<open>The events of the two-phase polling that a handler run on \<open>env\<close> performs.\<close>

definition polling_events :: "string \<Rightarrow> DeviceEntry \<Rightarrow> boot_env \<Rightarrow> boot_event list" where
  "polling_events device_path device_entry env =
     map Ev_poll (snd (poll_for_reenumeration device_path (serial_pattern device_entry)
                         TIMEOUT_REENUMERATION POLL_INTERVAL (poll_start env) (poll_trace env)))"

text \<open>A successful handler result rests on a confirmed reappearance: the listing of a
  disappearance scan lacks the original filename, and the returned path is that of a
  file in a reappearance scan whose signature is the original one.\<close>

definition reappearance_confirmed ::
  "string \<Rightarrow> BootloaderResult \<Rightarrow> boot_event list \<Rightarrow> bool"
where
  "reappearance_confirmed device_path boot_result evs =
     ((\<exists>fs1. Ev_poll (Scan_phase1 fs1) \<in> set evs \<and> basename device_path \<notin> set fs1) \<and>
      (\<exists>fs fname. Ev_poll (Scan_phase2 fs) \<in> set evs \<and> fname \<in> set fs \<and>
         same_signature (extract_device_signature (basename device_path)) fname \<and>
         boot_device_path boot_result = Some (path_join SERIAL_DIR fname)))"

text \<open>A Raspberry Pi Pico that is flashed by copying a UF2 file after the operator has
  held its BOOTSEL button, and a run in which the operator presses Enter.\<close>

definition pico :: DeviceEntry where
  "pico =
     \<lparr>key = ''pico'', name = ''Pico'', mcu = ''rp2040'',
      serial_pattern = Some ''usb-Klipper_rp2040_E66138935F5C8A27*'',
      flash_command = Some ''uf2_mount'', bootloader_method = Some ''manual'',
      canbus_uuid = None, canbus_interface = None,
      uf2_mount_path = None, sdcard_board = None\<rparr>"

definition pico_path :: string where
  "pico_path = ''/dev/serial/by-id/usb-Klipper_rp2040_E66138935F5C8A27-if00''"

definition operator_env :: boot_env where
  "operator_env =
     \<lparr>mode_change_run = Completed 0 [] [], boot_flashtool_exists = True,
      boot_flashtool_path = ''/home/pi/katapult/scripts/flashtool.py'',
      operator_input = Line_entered, poll_start = 99.9, poll_trace = reboot_trace\<rparr>"


section \<open>Shell-style matching (Python's fnmatch) and device matching (discovery.py)\<close>

text \<open>
  \<open>fnmatch.fnmatch(name, pat)\<close> on a POSIX host compares case-sensitively. The pattern is
  read from left to right: \<open>*\<close> matches any run of characters, \<open>?\<close> any single
  character, \<open>[seq]\<close> one character of the set (\<open>[!seq]\<close> one character outside it,
  \<open>x-y\<close> inside the brackets a range), and everything else matches itself. A \<open>[\<close>
  without a closing \<open>]\<close> is an ordinary character.
\<close>

datatype class_item = Single char | Range char char

datatype glob_token =
    Star
  | Any_char
  | Char_class bool "class_item list"
  | Literal char

fun class_items :: "string \<Rightarrow> class_item list" where
  "class_items [] = []"
| "class_items [x] = [Single x]"
| "class_items [x, y] = [Single x, Single y]"
| "class_items (x # y # z # r) =
     (if y = CHR ''-'' then Range x z # class_items r
      else Single x # class_items (y # z # r))"

text \<open>The text after an opening bracket, split at the bracket that closes the set: a
  leading \<open>!\<close> and a \<open>]\<close> directly after it (or directly after the opening bracket)
  belong to the set.\<close>

definition split_class :: "string \<Rightarrow> (string \<times> string) option" where
  "split_class s =
     (let neg = (if startswith s ''!'' then ''!'' else []);
          s1 = drop (length neg) s;
          lead = (if startswith s1 '']'' then '']'' else []);
          s2 = drop (length lead) s1
      in if CHR '']'' \<in> set s2 then
           Some (neg @ lead @ takeWhile (\<lambda>c. c \<noteq> CHR '']'') s2,
                 tl (dropWhile (\<lambda>c. c \<noteq> CHR '']'') s2))
         else None)"

definition class_token :: "string \<Rightarrow> glob_token" where
  "class_token stuff =
     (if stuff = [] then Char_class False []
      else if stuff = ''!'' then Any_char
      else if hd stuff = CHR ''!'' then Char_class True (class_items (tl stuff))
      else Char_class False (class_items stuff))"

function translate :: "string \<Rightarrow> glob_token list" where
  "translate [] = []"
| "translate (c # s) =
     (if c = CHR ''*'' then Star # translate s
      else if c = CHR ''?'' then Any_char # translate s
      else if c = CHR ''['' then
        (case split_class s of
           None \<Rightarrow> Literal c # translate s
         | Some (stuff, rest) \<Rightarrow> class_token stuff # translate rest)
      else Literal c # translate s)"
  by pat_completeness auto
termination
proof (relation "measure length")
  fix c s x2 stuff rest
  assume "split_class s = Some x2" and "(stuff, rest) = x2"
  then have "split_class s = Some (stuff, rest)" by simp
  moreover have "length (tl (dropWhile P (drop n xs))) \<le> length xs"
    for P n and xs :: string
  proof -
    have "length (dropWhile P (drop n xs)) \<le> length (drop n xs)"
      by (rule length_dropWhile_le)
    then show ?thesis by simp
  qed
  moreover have "length (tl (dropWhile P xs)) \<le> length xs" for P and xs :: string
    using length_dropWhile_le [of P xs] by simp
  ultimately have "length rest \<le> length s"
    unfolding split_class_def Let_def
    by (auto split: if_splits simp del: length_tl length_drop)
  then show "(rest, c # s) \<in> measure length" by simp
qed auto

definition in_item :: "char \<Rightarrow> class_item \<Rightarrow> bool" where
  "in_item c item =
     (case item of
        Single x \<Rightarrow> c = x
      | Range lo hi \<Rightarrow> (of_char lo :: nat) \<le> of_char c \<and> (of_char c :: nat) \<le> of_char hi)"

fun glob_match :: "glob_token list \<Rightarrow> string \<Rightarrow> bool" where
  "glob_match [] s = (s = [])"
| "glob_match (Star # ts) [] = glob_match ts []"
| "glob_match (Star # ts) (c # s) = (glob_match ts (c # s) \<or> glob_match (Star # ts) s)"
| "glob_match (Any_char # ts) [] = False"
| "glob_match (Any_char # ts) (c # s) = glob_match ts s"
| "glob_match (Char_class neg items # ts) [] = False"
| "glob_match (Char_class neg items # ts) (c # s) =
     ((list_ex (in_item c) items \<noteq> neg) \<and> glob_match ts s)"
| "glob_match (Literal x # ts) [] = False"
| "glob_match (Literal x # ts) (c # s) = (c = x \<and> glob_match ts s)"

definition fnmatch :: "string \<Rightarrow> string \<Rightarrow> bool" where
  "fnmatch fname pat = glob_match (translate pat) fname"

definition prefix_variants :: "string \<Rightarrow> string list" where
  "prefix_variants pattern =
     (let lower_pat = lower pattern in
      if startswith lower_pat ''usb-klipper_'' then
        [pattern, ''usb-katapult_'' @ drop (length ''usb-klipper_'') pattern]
      else if startswith lower_pat ''usb-katapult_'' then
        [pattern, ''usb-Klipper_'' @ drop (length ''usb-katapult_'') pattern]
      else [pattern])"

definition matches_variant :: "string \<Rightarrow> DiscoveredDevice \<Rightarrow> bool" where
  "matches_variant pattern device =
     list_ex (\<lambda>v. fnmatch (filename device) v) (prefix_variants pattern)"

definition match_devices :: "string \<Rightarrow> DiscoveredDevice list \<Rightarrow> DiscoveredDevice list" where
  "match_devices pattern devices = filter (matches_variant pattern) devices"

definition match_device :: "string \<Rightarrow> DiscoveredDevice list \<Rightarrow> DiscoveredDevice option" where
  "match_device pattern devices =
     (case match_devices pattern devices of [] \<Rightarrow> None | m # ms \<Rightarrow> Some m)"

text \<open>
  \<open>generate_serial_pattern\<close>: \<open>re.sub(r"-if\d+$", "", filename) + "*"\<close>. The expression
  matches \<open>-if\<close> followed by the longest run of digits, at the end of the string or just
  before a final newline (which then stays).
\<close>

definition is_digit :: "char \<Rightarrow> bool" where
  "is_digit c = (c \<in> set ''0123456789'')"

definition if_suffix_here :: "string \<Rightarrow> bool" where
  "if_suffix_here s =
     (startswith s ''-if'' \<and>
      takeWhile is_digit (drop 3 s) \<noteq> [] \<and>
      (dropWhile is_digit (drop 3 s) = [] \<or> dropWhile is_digit (drop 3 s) = [CHR 0x0A]))"

fun strip_if_suffix :: "string \<Rightarrow> string" where
  "strip_if_suffix [] = []"
| "strip_if_suffix (c # s) =
     (if if_suffix_here (c # s) then dropWhile is_digit (drop 3 (c # s))
      else c # strip_if_suffix s)"

definition generate_serial_pattern :: "string \<Rightarrow> string" where
  "generate_serial_pattern fname = strip_if_suffix fname @ ''*''"

definition dev :: "string \<Rightarrow> DiscoveredDevice" where
  "dev fname = \<lparr>path = path_join SERIAL_DIR fname, filename = fname\<rparr>"


section \<open>Post-flash verification for USB devices (tui.py, wait_for_device)\<close>

definition is_normal_name :: "string \<Rightarrow> bool" where
  "is_normal_name fname = startswith (lower fname) ''usb-klipper_''"

definition is_bootloader_name :: "string \<Rightarrow> bool" where
  "is_bootloader_name fname = startswith (lower fname) ''usb-katapult_''"












text \<open>Two boards of one family whose serial numbers share a prefix, the first of them
  in bootloader mode, a probe that is no Klipper board, and two patterns.\<close>

definition pico_family_pattern :: string where
  "pico_family_pattern = ''usb-Klipper_rp2040_E66*''"


definition pico1 :: DiscoveredDevice where
  "pico1 = dev ''usb-Klipper_rp2040_E661-if00''"

definition pico2 :: DiscoveredDevice where
  "pico2 = dev ''usb-Klipper_rp2040_E662-if00''"

definition pico1_boot :: DiscoveredDevice where
  "pico1_boot = dev ''usb-katapult_rp2040_E661-if00''"

definition probe :: DiscoveredDevice where
  "probe = dev ''usb-Beacon_rp2040_E661-if00''"


section \<open>Batch sequencer: the flash stage of cmd_flash_all (flash.py)\<close>

record BatchDeviceResult =
  device_key :: string
  device_name :: string
  config_ok :: bool
  build_ok :: bool
  bootloader_ok :: bool
  flash_ok :: bool
  verify_ok :: bool
  error_message :: "string option"
  firmware_name :: string

text \<open>An optional string inside an f-string prints as \<open>None\<close> when it is unset.\<close>

definition fmt_opt :: "string option \<Rightarrow> string" where
  "fmt_opt v = (case v of None \<Rightarrow> ''None'' | Some s \<Rightarrow> s)"

definition should_apply_flash_all_stagger :: "BatchDeviceResult option \<Rightarrow> bool" where
  "should_apply_flash_all_stagger previous_result =
     (case previous_result of
        None \<Rightarrow> False
      | Some prev \<Rightarrow>
          if bootloader_ok prev \<or> flash_ok prev then True
          else startswith (lower (strip (or_default (error_message prev) []))) ''bootloader:'')"

text \<open>
  The collaborators of the flash stage, given by how their calls end: each of them
  returns a value or raises (an error of the operating system, or the operator's
  Ctrl-C). The number passed to some of them is the position of the device in the batch
  (or, for the directory listing, the number of the call), so that the outside world may
  answer differently each time. \<open>sleep_outcome\<close> stands for \<open>time.sleep\<close>,
  \<open>update_device_outcome\<close> for \<open>registry.update_device\<close>, \<open>config_issue_of\<close> for
  \<open>_get_device_flash_config_issue\<close> and \<open>mcu_of_filename\<close> for \<open>extract_mcu_from_serial\<close>;
  the last two only compute on their argument.
\<close>

record batch_env =
  scan_results :: "nat \<Rightarrow> DiscoveredDevice list completion"
  sleep_outcome :: "nat \<Rightarrow> unit completion"
  can_preflight_of :: "string \<Rightarrow> (bool \<times> string) completion"
  config_issue_of :: "DeviceEntry \<Rightarrow> (string \<times> string) option"
  flash_preflight_of :: "string option \<Rightarrow> bool completion"
  bootloader_outcome :: "nat \<Rightarrow> DeviceEntry \<Rightarrow> string \<Rightarrow> BootloaderResult completion"
  transfer_outcome :: "nat \<Rightarrow> flash_call \<Rightarrow> FlashResult completion"
  can_verify_outcome :: "nat \<Rightarrow> string \<Rightarrow> string \<Rightarrow> (bool \<times> string option) completion"
  usb_verify_outcome ::
    "nat \<Rightarrow> string option \<Rightarrow> (bool \<times> string option \<times> string option) completion"
  update_device_outcome :: "nat \<Rightarrow> string \<Rightarrow> bool completion"
  realpath_of :: "string \<Rightarrow> string"
  mcu_of_filename :: "string \<Rightarrow> string option"
  temp_dir :: string
  batch_config :: GlobalConfig

record batch_state =
  usb_devices :: "DiscoveredDevice list"
  scans_done :: nat
  used_paths :: "string set"
  preflight_cache :: "string option \<rightharpoonup> bool"
  can_preflight_cache :: "string \<rightharpoonup> bool"

text \<open>What the sequencer does to a device or on its behalf. A call that raises is
  logged as well: it was made.\<close>

datatype batch_action =
    Act_stagger_sleep real
  | Act_can_preflight string
  | Act_flash_preflight "string option"
  | Act_enter_bootloader string
  | Act_execute_flash string
  | Act_verify
  | Act_record_timestamp
  | Act_rescan

definition failed_with :: "BatchDeviceResult \<Rightarrow> string \<Rightarrow> BatchDeviceResult" where
  "failed_with result msg = result\<lparr>error_message := Some msg\<rparr>"

definition is_ambiguous :: "DiscoveredDevice list \<Rightarrow> DeviceEntry \<Rightarrow> bool" where
  "is_ambiguous devices entry =
     (case serial_pattern entry of
        None \<Rightarrow> False
      | Some pat \<Rightarrow> length (match_devices pat devices) > 1)"

definition ambiguous_keys ::
  "(DeviceEntry \<times> BatchDeviceResult) list \<Rightarrow> DiscoveredDevice list \<Rightarrow> string set"
where
  "ambiguous_keys built_results devices =
     set (map key (filter (is_ambiguous devices) (map fst built_results)))"

text \<open>
  \<open>execute_flash\<close> has no exception handler, so what the mechanism it calls raises leaves
  \<open>execute_flash\<close> as well. It calls at most one mechanism; when that call raises, the
  value put in its place below is never looked at.
\<close>

definition execute_flash_call ::
  "(flash_call \<Rightarrow> FlashResult completion) \<Rightarrow> DeviceEntry \<Rightarrow> string \<Rightarrow> string \<Rightarrow> GlobalConfig
     \<Rightarrow> int \<Rightarrow> FlashResult completion"
where
  "execute_flash_call mech entry device_path firmware_path config timeout =
     (let returned =
            (\<lambda>c. case mech c of
                   Normal r \<Rightarrow> r
                 | Raise x \<Rightarrow>
                     \<lparr>flash_success = False, flash_method = strategy_of c,
                      flash_elapsed_seconds = 0, flash_error_message = None\<rparr>);
          (r, calls) = execute_flash returned entry device_path firmware_path config timeout
      in case calls of
           [] \<Rightarrow> Normal r
         | c # cs \<Rightarrow> (case mech c of Raise x \<Rightarrow> Raise x | Normal r' \<Rightarrow> Normal r))"

text \<open>
  A step of the loop body gives the exception that ended it, if any, the batch result of
  the device as it stands then (the result object is updated in place), the state, and
  the actions.
\<close>

type_synonym step_result =
  "exn option \<times> BatchDeviceResult \<times> batch_state \<times> batch_action list"

text \<open>The flash-method preflight with its cache, shared by both transports: whether the
  preflight has passed, the new cache, and the actions.\<close>

definition cached_flash_preflight ::
  "batch_env \<Rightarrow> batch_state \<Rightarrow> string option
     \<Rightarrow> bool completion \<times> batch_state \<times> batch_action list"
where
  "cached_flash_preflight env st method =
     (case preflight_cache st method of
        Some ok \<Rightarrow> (Normal ok, st, [])
      | None \<Rightarrow>
          (case flash_preflight_of env method of
             Raise x \<Rightarrow> (Raise x, st, [Act_flash_preflight method])
           | Normal ok \<Rightarrow>
               (Normal ok, st\<lparr>preflight_cache := (preflight_cache st)(method \<mapsto> ok)\<rparr>,
                [Act_flash_preflight method])))"

definition firmware_path_of :: "batch_env \<Rightarrow> DeviceEntry \<Rightarrow> BatchDeviceResult \<Rightarrow> string" where
  "firmware_path_of env entry result =
     path_join (path_join (temp_dir env) (key entry)) (firmware_name result)"

text \<open>The CAN interface preflight with its cache: whether the interface is usable and
  the message for the case that it is not.\<close>

definition cached_can_preflight ::
  "batch_env \<Rightarrow> batch_state \<Rightarrow> string
     \<Rightarrow> (bool \<times> string) completion \<times> batch_state \<times> batch_action list"
where
  "cached_can_preflight env st iface =
     (case can_preflight_cache st iface of
        None \<Rightarrow>
          (case can_preflight_of env iface of
             Raise x \<Rightarrow> (Raise x, st, [Act_can_preflight iface])
           | Normal (ok, error) \<Rightarrow>
               (Normal (ok, ''CAN preflight failed: '' @ error),
                st\<lparr>can_preflight_cache := (can_preflight_cache st)(iface \<mapsto> ok)\<rparr>,
                [Act_can_preflight iface]))
      | Some ok \<Rightarrow>
          (Normal (ok, ''CAN interface '' @ iface @ '' failed preflight''), st, []))"

text \<open>The branch for a CAN device (\<open>entry.is_can_device\<close>), from the bootloader entry
  on, and the whole branch.\<close>

definition can_flash_and_verify ::
  "batch_env \<Rightarrow> batch_state \<Rightarrow> nat \<Rightarrow> DeviceEntry \<Rightarrow> BatchDeviceResult \<Rightarrow> string
     \<Rightarrow> batch_action list \<Rightarrow> step_result"
where
  "can_flash_and_verify env st idx entry result iface acts =
     (let acts3 = acts @ [Act_enter_bootloader []] in
      case bootloader_outcome env idx entry [] of
        Raise x \<Rightarrow> (Some x, result, st, acts3)
      | Normal boot_result \<Rightarrow>
          if \<not> boot_success boot_result then
            (None,
             failed_with (result\<lparr>bootloader_ok := False\<rparr>)
               (''Bootloader: '' @ fmt_opt (boot_error_message boot_result)),
             st, acts3)
          else
            (let result1 = result\<lparr>bootloader_ok := True\<rparr>;
                 acts4 = acts3 @ [Act_execute_flash []] in
             case execute_flash_call (transfer_outcome env idx) entry []
                    (firmware_path_of env entry result1) (batch_config env)
                    TIMEOUT_CAN_FLASH of
               Raise x \<Rightarrow> (Some x, result1, st, acts4)
             | Normal flash_result \<Rightarrow>
                 if flash_success flash_result then
                   (let result2 = result1\<lparr>flash_ok := True\<rparr>;
                        acts5 = acts4 @ [Act_verify] in
                    case can_verify_outcome env idx (or_default (canbus_uuid entry) [])
                           iface of
                      Raise x \<Rightarrow> (Some x, result2, st, acts5)
                    | Normal (verified, error_reason) \<Rightarrow>
                        if verified then
                          (let result3 = result2\<lparr>verify_ok := True\<rparr>;
                               acts6 = acts5 @ [Act_record_timestamp] in
                           case update_device_outcome env idx (key entry) of
                             Raise x \<Rightarrow> (Some x, result3, st, acts6)
                           | Normal u \<Rightarrow> (None, result3, st, acts6))
                        else
                          (None,
                           failed_with result2
                             (or_default error_reason ''CAN verification failed''),
                           st, acts5))
                 else
                   (None,
                    failed_with result1
                      (or_default (flash_error_message flash_result) ''Flash failed''),
                    st, acts4)))"

definition can_step ::
  "batch_env \<Rightarrow> batch_state \<Rightarrow> nat \<Rightarrow> DeviceEntry \<Rightarrow> BatchDeviceResult \<Rightarrow> step_result"
where
  "can_step env st idx entry result =
     (let iface = or_default (canbus_interface entry) ''can0'' in
      case cached_can_preflight env st iface of
        (Raise x, st1, acts1) \<Rightarrow> (Some x, result, st1, acts1)
      | (Normal (can_ok, err), st1, acts1) \<Rightarrow>
          if \<not> can_ok then (None, failed_with result err, st1, acts1)
          else case config_issue_of env entry of
            Some (error_type, detail) \<Rightarrow>
              (None, failed_with result (error_type @ '': '' @ detail), st1, acts1)
          | None \<Rightarrow>
              (case cached_flash_preflight env st1 (flash_command entry) of
                 (Raise x, st2, acts2) \<Rightarrow> (Some x, result, st2, acts1 @ acts2)
               | (Normal pre_ok, st2, acts2) \<Rightarrow>
                   if \<not> pre_ok then
                     (None,
                      failed_with result
                        (''Preflight failed for flash command: '' @
                         fmt_opt (flash_command entry)),
                      st2, acts1 @ acts2)
                   else can_flash_and_verify env st2 idx entry result iface (acts1 @ acts2)))"

text \<open>
  The branch for a USB device. First the part from the transfer on, for a device whose
  bootloader was entered at \<open>boot_path\<close>: after a transfer that succeeded the directory
  is listed again for the next device, whether the verification passed or not.
\<close>

definition usb_flash_and_verify ::
  "batch_env \<Rightarrow> batch_state \<Rightarrow> nat \<Rightarrow> DeviceEntry \<Rightarrow> BatchDeviceResult \<Rightarrow> string
     \<Rightarrow> batch_action list \<Rightarrow> step_result"
where
  "usb_flash_and_verify env st idx entry result1 boot_path acts3 =
     (let acts4 = acts3 @ [Act_execute_flash boot_path] in
      case execute_flash_call (transfer_outcome env idx) entry boot_path
             (firmware_path_of env entry result1) (batch_config env) TIMEOUT_FLASH of
        Raise x \<Rightarrow> (Some x, result1, st, acts4)
      | Normal flash_result \<Rightarrow>
          if flash_success flash_result then
            (let result2 = result1\<lparr>flash_ok := True\<rparr>;
                 acts5 = acts4 @ [Act_verify] in
             case usb_verify_outcome env idx (serial_pattern entry) of
               Raise x \<Rightarrow> (Some x, result2, st, acts5)
             | Normal (verified, p, error_reason) \<Rightarrow>
                 (case (if verified then
                          (let result3 = result2\<lparr>verify_ok := True\<rparr> in
                           case update_device_outcome env idx (key entry) of
                             Raise x \<Rightarrow> (Some x, result3, acts5 @ [Act_record_timestamp])
                           | Normal u \<Rightarrow> (None, result3, acts5 @ [Act_record_timestamp]))
                        else
                          (None,
                           failed_with result2
                             (or_default error_reason ''Verification failed''),
                           acts5)) of
                    (Some x, result4, acts6) \<Rightarrow> (Some x, result4, st, acts6)
                  | (None, result4, acts6) \<Rightarrow>
                      (case scan_results env (scans_done st) of
                         Raise x \<Rightarrow>
                           (Some x, result4, st\<lparr>scans_done := Suc (scans_done st)\<rparr>,
                            acts6 @ [Act_rescan])
                       | Normal devices \<Rightarrow>
                           (None, result4,
                            st\<lparr>usb_devices := devices, scans_done := Suc (scans_done st)\<rparr>,
                            acts6 @ [Act_rescan]))))
          else
            (None,
             failed_with result1
               (or_default (flash_error_message flash_result) ''Flash failed''),
             st, acts4))"

text \<open>
  The USB branch from \<open>match_device\<close> on, for a registration whose pattern is \<open>pat\<close>:
  \<open>match_device\<close> takes the first endpoint of the current listing that matches.
\<close>

definition usb_pipeline ::
  "batch_env \<Rightarrow> batch_state \<Rightarrow> nat \<Rightarrow> DeviceEntry \<Rightarrow> BatchDeviceResult \<Rightarrow> string
     \<Rightarrow> step_result"
where
  "usb_pipeline env st idx entry result pat =
     (case match_device pat (usb_devices st) of
        None \<Rightarrow> (None, failed_with result ''Device not found on USB'', st, [])
      | Some usb_device \<Rightarrow>
          (let real_path = realpath_of env (path usb_device) in
           if real_path \<in> used_paths st then
             (None, failed_with result ''USB path already targeted by prior device'', st, [])
           else
             (let st1 = st\<lparr>used_paths := insert real_path (used_paths st)\<rparr> in
              case (case mcu_of_filename env (filename usb_device) of
                      None \<Rightarrow> None
                    | Some usb_mcu \<Rightarrow>
                        if lower usb_mcu \<noteq> lower (mcu entry) then Some usb_mcu else None) of
                Some usb_mcu \<Rightarrow>
                  (None,
                   failed_with result
                     (''MCU mismatch: USB='' @ [CHR 0x27] @ usb_mcu @ [CHR 0x27] @
                      '', registry='' @ [CHR 0x27] @ mcu entry @ [CHR 0x27]),
                   st1, [])
              | None \<Rightarrow>
                  (case config_issue_of env entry of
                     Some (error_type, detail) \<Rightarrow>
                       (None, failed_with result (error_type @ '': '' @ detail), st1, [])
                   | None \<Rightarrow>
                       (case cached_flash_preflight env st1 (flash_command entry) of
                          (Raise x, st2, acts2) \<Rightarrow> (Some x, result, st2, acts2)
                        | (Normal pre_ok, st2, acts2) \<Rightarrow>
                            if \<not> pre_ok then
                              (None,
                               failed_with result
                                 (''Preflight failed for flash command: '' @
                                  fmt_opt (flash_command entry)),
                               st2, acts2)
                            else if bootloader_method entry = Some ''none'' then
                              usb_flash_and_verify env st2 idx entry
                                (result\<lparr>bootloader_ok := True\<rparr>) (path usb_device) acts2
                            else
                              (let acts3 = acts2 @ [Act_enter_bootloader (path usb_device)] in
                               case bootloader_outcome env idx entry (path usb_device) of
                                 Raise x \<Rightarrow> (Some x, result, st2, acts3)
                               | Normal boot_result \<Rightarrow>
                                   if \<not> boot_success boot_result then
                                     (None,
                                      failed_with (result\<lparr>bootloader_ok := False\<rparr>)
                                        (''Bootloader: '' @
                                         fmt_opt (boot_error_message boot_result)),
                                      st2, acts3)
                                   else
                                     usb_flash_and_verify env st2 idx entry
                                       (result\<lparr>bootloader_ok := True\<rparr>)
                                       (or_default (boot_device_path boot_result) [])
                                       acts3))))))"

text \<open>
  The branch for a USB device: the ambiguity guard comes first. A registration without
  a pattern makes \<open>match_device\<close> call \<open>lower\<close> on \<open>None\<close>, which raises.
\<close>

definition usb_step ::
  "batch_env \<Rightarrow> string set \<Rightarrow> batch_state \<Rightarrow> nat \<Rightarrow> DeviceEntry \<Rightarrow> BatchDeviceResult
     \<Rightarrow> step_result"
where
  "usb_step env ambiguous st idx entry result =
     (if key entry \<in> ambiguous then
        (None, failed_with result ''Pattern matches multiple connected USB devices'', st, [])
      else case serial_pattern entry of
        None \<Rightarrow> (Some (Exception ''AttributeError''), result, st, [])
      | Some pat \<Rightarrow> usb_pipeline env st idx entry result pat)"

definition flash_one ::
  "batch_env \<Rightarrow> string set \<Rightarrow> batch_state \<Rightarrow> nat \<Rightarrow> DeviceEntry \<Rightarrow> BatchDeviceResult
     \<Rightarrow> step_result"
where
  "flash_one env ambiguous st idx entry result =
     (if is_can_device entry then can_step env st idx entry result
      else usb_step env ambiguous st idx entry result)"

text \<open>The pause before a device that is not the first one: whether \<open>time.sleep\<close>
  returned, and the action.\<close>

definition stagger_pause ::
  "batch_env \<Rightarrow> nat \<Rightarrow> BatchDeviceResult option \<Rightarrow> DeviceEntry
     \<Rightarrow> unit completion \<times> batch_action list"
where
  "stagger_pause env idx previous_result entry =
     (if idx > 0 \<and> should_apply_flash_all_stagger previous_result then
        (sleep_outcome env idx,
         [Act_stagger_sleep
            (if is_can_device entry then can_stagger_delay (batch_config env)
             else stagger_delay (batch_config env))])
      else (Normal (), []))"

text \<open>
  The loop \<open>for idx, (entry, result) in enumerate(built_results)\<close>. Its body has no
  exception handler: what a step raises ends the loop, and the devices after it keep the
  results they had. The loop gives the exception that ended it, if any, with the
  position of the device it was at, the results in the order of the batch, and the
  actions, each with the position of the device it belongs to.
\<close>

fun flash_loop ::
  "batch_env \<Rightarrow> string set \<Rightarrow> nat \<Rightarrow> BatchDeviceResult option \<Rightarrow> batch_state
     \<Rightarrow> (DeviceEntry \<times> BatchDeviceResult) list
     \<Rightarrow> (nat \<times> exn) option \<times> BatchDeviceResult list \<times> (nat \<times> batch_action) list"
where
  "flash_loop env ambiguous idx previous_result st [] = (None, [], [])"
| "flash_loop env ambiguous idx previous_result st ((entry, result) # rest) =
     (case stagger_pause env idx previous_result entry of
        (Raise x, stagger) \<Rightarrow>
          (Some (idx, x), result # map snd rest, map (Pair idx) stagger)
      | (Normal u, stagger) \<Rightarrow>
          (case flash_one env ambiguous st idx entry result of
             (Some x, result', st', acts) \<Rightarrow>
               (Some (idx, x), result' # map snd rest, map (Pair idx) (stagger @ acts))
           | (None, result', st', acts) \<Rightarrow>
               (let (x, results, trail) =
                      flash_loop env ambiguous (Suc idx) (Some result') st' rest
                in (x, result' # results, map (Pair idx) (stagger @ acts) @ trail))))"

text \<open>The body of the guarded scope: scan, detect duplicate matches in that listing,
  run the loop. When the first scan raises, no device is reached.\<close>

definition flash_all_devices ::
  "batch_env \<Rightarrow> (DeviceEntry \<times> BatchDeviceResult) list
     \<Rightarrow> (nat \<times> exn) option \<times> BatchDeviceResult list \<times> (nat \<times> batch_action) list"
where
  "flash_all_devices env built_results =
     (case scan_results env 0 of
        Raise x \<Rightarrow> (Some (0, x), map snd built_results, [])
      | Normal devices \<Rightarrow>
          flash_loop env (ambiguous_keys built_results devices) 0 None
            \<lparr>usb_devices = devices, scans_done = 1, used_paths = {},
             preflight_cache = Map.empty, can_preflight_cache = Map.empty\<rparr>
            built_results)"

definition is_stagger :: "batch_action \<Rightarrow> bool" where
  "is_stagger a = (case a of Act_stagger_sleep d \<Rightarrow> True | _ \<Rightarrow> False)"

text \<open>The devices that the loop has dealt with when it ends: all of them when it ran to
  its end, and those before the position of the exception otherwise.\<close>

definition reached_end_of :: "(nat \<times> exn) option \<Rightarrow> nat \<Rightarrow> bool" where
  "reached_end_of x i = (case x of None \<Rightarrow> True | Some (j, e) \<Rightarrow> i < j)"

text \<open>A registration of a family pattern, and the batch result a device has when the
  flash stage begins.\<close>

definition pico_board :: DeviceEntry where
  "pico_board =
     \<lparr>key = ''pico-a'', name = ''Pico A'', mcu = ''rp2040'',
      serial_pattern = Some pico_family_pattern,
      flash_command = Some ''katapult'', bootloader_method = Some ''usb'',
      canbus_uuid = None, canbus_interface = None,
      uf2_mount_path = None, sdcard_board = None\<rparr>"

definition fresh_result :: "DeviceEntry \<Rightarrow> BatchDeviceResult" where
  "fresh_result entry =
     \<lparr>device_key = key entry, device_name = name entry, config_ok = True, build_ok = True,
      bootloader_ok = False, flash_ok = False, verify_ok = False, error_message = None,
      firmware_name = ''klipper.bin''\<rparr>"

text \<open>
  A host on which every step succeeds and the bootloader is entered at the path that was
  passed, for a given sequence of directory listings. On \<open>sample_batch_env\<close> the
  mainboard and two boards of the family are attached all the time, one of the two in
  bootloader mode. On \<open>late_env\<close> the mainboard and one board of the family are attached
  when the stage begins, and the second board of the family has enumerated by the time
  the directory is listed again.
\<close>

definition cooperative_env :: "(nat \<Rightarrow> DiscoveredDevice list) \<Rightarrow> batch_env" where
  "cooperative_env listing =
     \<lparr>scan_results = (\<lambda>n. Normal (listing n)),
      sleep_outcome = (\<lambda>idx. Normal ()),
      can_preflight_of = (\<lambda>iface. Normal (True, [])),
      config_issue_of = (\<lambda>entry. None),
      flash_preflight_of = (\<lambda>m. Normal True),
      bootloader_outcome =
        (\<lambda>idx entry p. Normal \<lparr>boot_success = True, boot_device_path = Some p,
                                  boot_error_message = None\<rparr>),
      transfer_outcome = (\<lambda>idx c. Normal (always_ok c)),
      can_verify_outcome = (\<lambda>idx uuid iface. Normal (True, None)),
      usb_verify_outcome = (\<lambda>idx pat. Normal (True, None, None)),
      update_device_outcome = (\<lambda>idx k. Normal True),
      realpath_of = (\<lambda>p. p),
      mcu_of_filename = (\<lambda>f. None),
      temp_dir = ''/tmp/kalico-flash-x'',
      batch_config = sample_config\<rparr>"

definition octopus_dev :: DiscoveredDevice where
  "octopus_dev = dev octopus_klipper_name"

definition sample_batch_env :: batch_env where
  "sample_batch_env = cooperative_env (\<lambda>n. [octopus_dev, pico1_boot, pico2])"

definition late_env :: batch_env where
  "late_env =
     cooperative_env (\<lambda>n. if n = 0 then [octopus_dev, pico1] else [octopus_dev, pico1, pico2])"

definition late_batch :: "(DeviceEntry \<times> BatchDeviceResult) list" where
  "late_batch = [(octopus, fresh_result octopus), (pico_board, fresh_result pico_board)]"

text \<open>The host of \<open>sample_batch_env\<close>, on which the operator presses Ctrl-C while the
  first device of the batch is being verified.\<close>

definition interrupted_env :: batch_env where
  "interrupted_env =
     sample_batch_env\<lparr>usb_verify_outcome := (\<lambda>idx pat. Raise KeyboardInterrupt)\<rparr>"

section \<open>Properties of the CAN retry loop\<close>

lemma upto_1_3: "[1..3::int] = [1, 2, 3]"
  by (simp add: upto.simps)

lemma retry_loop_3_continue:
  fixes run :: "int \<Rightarrow> run_outcome"
  shows "let (res, effs) = retry_loop run timeout 3 [] [1, 2, 3]; att = attempts_run effs in
   (att = [] \<or> att = [1] \<or> att = [1, 2] \<or> att = [1, 2, 3]) \<and>
   (\<forall>k rc. k \<in> set att \<and> run k = Exited rc \<and> rc \<noteq> 0 \<and> k < 3 \<longrightarrow> k + 1 \<in> set att) \<and>
   (\<forall>k. k \<in> set att \<and> run k = Timeout_expired \<and> k < 3 \<longrightarrow> k + 1 \<in> set att)"
  apply (cases "run 1"; cases "run 2"; cases "run 3")
  apply (auto simp: Let_def split: prod.splits if_splits)
  done


lemma retry_loop_3_early:
  fixes run :: "int \<Rightarrow> run_outcome"
  shows "let (res, effs) = retry_loop run timeout 3 [] [1, 2, 3]; att = attempts_run effs in
   att \<noteq> [] \<and>
   (\<forall>le. res = Loop_done le \<and> length att < 3 \<longrightarrow> (\<exists>e. run (last att) = Os_error e))"
  apply (cases "run 1"; cases "run 2"; cases "run 3")
  apply (auto simp: Let_def split: prod.splits if_splits)
  done

lemma retry_loop_3_all_timeouts:
  fixes run :: "int \<Rightarrow> run_outcome"
  assumes "run 1 = Timeout_expired" "run 2 = Timeout_expired" "run 3 = Timeout_expired"
  shows "retry_loop run timeout 3 [] [1, 2, 3] =
           (Loop_done (''CAN flash timeout ('' @ str_int timeout @ ''s)''),
            [Subprocess_run 1, Sleep 2, Subprocess_run 2, Sleep 2, Subprocess_run 3])"
  using assms by simp

lemma str_int_3: "str_int 3 = ''3''"
  by (simp add: str_int_def str_nat.simps digit_char_def)



text \<open>A timeout and a non-zero exit code take the same path through the loop: the
  effects are the same, and the way the loop is left differs at most in the text of
  the last error.\<close>

lemma retry_loop_3_timeout_like_exit:
  fixes run :: "int \<Rightarrow> run_outcome"
  shows "snd (retry_loop (\<lambda>k. timeout_as_exit (run k)) timeout 3 [] [1, 2, 3])
           = snd (retry_loop run timeout 3 [] [1, 2, 3]) \<and>
         same_exit_kind (fst (retry_loop (\<lambda>k. timeout_as_exit (run k)) timeout 3 [] [1, 2, 3]))
           (fst (retry_loop run timeout 3 [] [1, 2, 3]))"
  apply (cases "run 1"; cases "run 2"; cases "run 3")
  apply (auto simp: Let_def split: prod.splits if_splits)
  done

lemma retry_loop_3_last:
  fixes run :: "int \<Rightarrow> run_outcome"
  shows "let (res, effs) = retry_loop run timeout 3 [] [1, 2, 3]; att = attempts_run effs in
   length att < 3 \<longrightarrow>
     (run (last att) = Exited 0 \<and> res = Return_success) \<or>
     (\<exists>e. run (last att) = Os_error e \<and> res = Loop_done (''Failed to run flashtool.py: '' @ e)) \<or>
     (\<exists>x. run (last att) = Raised_other x \<and> res = Propagate x)"
  apply (cases "run 1"; cases "run 2"; cases "run 3")
  apply (auto simp: Let_def split: prod.splits if_splits)
  done

lemma retry_loop_3_not_last:
  fixes run :: "int \<Rightarrow> run_outcome"
  shows "let (res, effs) = retry_loop run timeout 3 [] [1, 2, 3]; att = attempts_run effs in
   \<forall>k. k \<in> set att \<and> k + 1 \<in> set att \<longrightarrow>
      run k = Timeout_expired \<or> (\<exists>rc. run k = Exited rc \<and> rc \<noteq> 0)"
  apply (cases "run 1"; cases "run 2"; cases "run 3")
  apply (auto simp: Let_def split: prod.splits if_splits)
  done



text \<open>
  Claim C10. A per-attempt timeout is treated like a non-zero exit code and not like a
  launch failure. The timed-out attempt is one of the at most three attempts, and below
  the cap the next attempt is started. Replacing every timeout of a run by an exit with
  code 1 changes neither the attempts nor the pauses, and the outcome at most in the text
  of the error message. Every attempt that is followed by another one ended in a timeout
  or a non-zero exit code. When fewer than three attempts were started, the last one
  either exited zero (success is returned), or could not be launched (OSError, the
  failure carrying that error is returned), or raised something that is not caught and
  propagates; so among failing attempts only a launch failure ends the loop early.
  Three timeouts in a row use up the cap.
\<close>

theorem flash_katapult_can_timeout_is_retried:
  "let (res, effs) = flash_katapult_can env timeout CAN_RETRY_ATTEMPTS;
       att = attempts_run effs;
       (res', effs') =
         flash_katapult_can
           (env\<lparr>run_flashtool := (\<lambda>k. timeout_as_exit (run_flashtool env k))\<rparr>)
           timeout CAN_RETRY_ATTEMPTS
   in length att \<le> 3 \<and>
      (\<forall>k. k \<in> set att \<and> run_flashtool env k = Timeout_expired \<and> k < 3
          \<longrightarrow> k + 1 \<in> set att) \<and>
      effs' = effs \<and> same_up_to_message res' res \<and>
      (\<forall>k. k \<in> set att \<and> k + 1 \<in> set att
          \<longrightarrow> run_flashtool env k = Timeout_expired \<or>
              (\<exists>rc. run_flashtool env k = Exited rc \<and> rc \<noteq> 0)) \<and>
      (flashtool_exists env \<and> length att < 3
          \<longrightarrow> (run_flashtool env (last att) = Exited 0 \<and>
               (\<exists>fr. res = Inr fr \<and> flash_success fr)) \<or>
              (\<exists>e. run_flashtool env (last att) = Os_error e \<and>
                 (\<exists>fr. res = Inr fr \<and> \<not> flash_success fr \<and>
                    flash_error_message fr =
                      Some (''Failed to run flashtool.py: '' @ e @ '' (after 3 attempts)''))) \<or>
              (\<exists>x. run_flashtool env (last att) = Raised_other x \<and> res = Inl x)) \<and>
      (\<forall>fr. res = Inr fr \<and> \<not> flash_success fr \<and> flashtool_exists env \<and> length att < 3
          \<longrightarrow> (\<exists>e. run_flashtool env (last att) = Os_error e)) \<and>
      (flashtool_exists env \<and> run_flashtool env 1 = Timeout_expired \<and>
       run_flashtool env 2 = Timeout_expired \<and> run_flashtool env 3 = Timeout_expired
          \<longrightarrow> att = [1, 2, 3] \<and>
              res = Inr \<lparr>flash_success = False, flash_method = ''katapult_can'',
                         flash_elapsed_seconds = elapsed env,
                         flash_error_message =
                           Some (''CAN flash timeout ('' @ str_int timeout @
                                 ''s) (after 3 attempts)'')\<rparr>)"
proof (cases "flashtool_exists env")
  case False
  then show ?thesis by (simp add: flash_katapult_can_def)
next
  case True
  let ?run = "run_flashtool env"
  let ?run' = "\<lambda>k. timeout_as_exit (run_flashtool env k)"
  obtain res effs where r: "retry_loop ?run timeout 3 [] [1, 2, 3] = (res, effs)"
    by (cases "retry_loop ?run timeout 3 [] [1, 2, 3]")
  obtain res' effs' where r': "retry_loop ?run' timeout 3 [] [1, 2, 3] = (res', effs')"
    by (cases "retry_loop ?run' timeout 3 [] [1, 2, 3]")
  from retry_loop_3_continue [of ?run timeout] r
  have c: "attempts_run effs = [] \<or> attempts_run effs = [1] \<or> attempts_run effs = [1, 2]
             \<or> attempts_run effs = [1, 2, 3]"
    and n: "\<forall>k. k \<in> set (attempts_run effs) \<and> ?run k = Timeout_expired \<and> k < 3
          \<longrightarrow> k + 1 \<in> set (attempts_run effs)"
    by (simp_all add: Let_def)
  from retry_loop_3_early [of ?run timeout] r
  have e: "\<forall>le. res = Loop_done le \<and> length (attempts_run effs) < 3
             \<longrightarrow> (\<exists>e. ?run (last (attempts_run effs)) = Os_error e)"
    by (simp add: Let_def)
  from retry_loop_3_timeout_like_exit [of ?run timeout] r r'
  have s: "effs' = effs" "same_exit_kind res' res" by simp_all
  from retry_loop_3_last [of ?run timeout] r
  have la: "length (attempts_run effs) < 3 \<longrightarrow>
     (?run (last (attempts_run effs)) = Exited 0 \<and> res = Return_success) \<or>
     (\<exists>e. ?run (last (attempts_run effs)) = Os_error e \<and>
          res = Loop_done (''Failed to run flashtool.py: '' @ e)) \<or>
     (\<exists>x. ?run (last (attempts_run effs)) = Raised_other x \<and> res = Propagate x)"
    by (simp add: Let_def)
  from retry_loop_3_not_last [of ?run timeout] r
  have nl: "\<forall>k. k \<in> set (attempts_run effs) \<and> k + 1 \<in> set (attempts_run effs) \<longrightarrow>
      ?run k = Timeout_expired \<or> (\<exists>rc. ?run k = Exited rc \<and> rc \<noteq> 0)"
    by (simp add: Let_def)
  from c have l: "length (attempts_run effs) \<le> 3" by auto
  have t: "?run 1 = Timeout_expired \<and> ?run 2 = Timeout_expired \<and>
           ?run 3 = Timeout_expired \<longrightarrow>
           res = Loop_done (''CAN flash timeout ('' @ str_int timeout @ ''s)'') \<and>
           attempts_run effs = [1, 2, 3]"
    using r retry_loop_3_all_timeouts [of ?run timeout] by auto
  have f: "flash_katapult_can env timeout CAN_RETRY_ATTEMPTS =
      (case res of
         Return_success \<Rightarrow>
           Inr \<lparr>flash_success = True, flash_method = ''katapult_can'',
                 flash_elapsed_seconds = elapsed env, flash_error_message = None\<rparr>
       | Loop_done last_error \<Rightarrow>
           Inr \<lparr>flash_success = False, flash_method = ''katapult_can'',
                 flash_elapsed_seconds = elapsed env,
                 flash_error_message = Some (last_error @ '' (after 3 attempts)'')\<rparr>
       | Propagate exc \<Rightarrow> Inl exc, effs)"
    using True r
    by (cases res) (simp_all add: flash_katapult_can_def CAN_RETRY_ATTEMPTS_def upto_1_3 str_int_3)
  have f': "flash_katapult_can (env\<lparr>run_flashtool := ?run'\<rparr>) timeout CAN_RETRY_ATTEMPTS =
      (case res' of
         Return_success \<Rightarrow>
           Inr \<lparr>flash_success = True, flash_method = ''katapult_can'',
                 flash_elapsed_seconds = elapsed env, flash_error_message = None\<rparr>
       | Loop_done last_error \<Rightarrow>
           Inr \<lparr>flash_success = False, flash_method = ''katapult_can'',
                 flash_elapsed_seconds = elapsed env,
                 flash_error_message = Some (last_error @ '' (after 3 attempts)'')\<rparr>
       | Propagate exc \<Rightarrow> Inl exc, effs')"
    using True r'
    by (cases res') (simp_all add: flash_katapult_can_def CAN_RETRY_ATTEMPTS_def upto_1_3 str_int_3)
  have k: "same_up_to_message
      (case res' of
         Return_success \<Rightarrow>
           Inr \<lparr>flash_success = True, flash_method = ''katapult_can'',
                 flash_elapsed_seconds = elapsed env, flash_error_message = None\<rparr>
       | Loop_done last_error \<Rightarrow>
           Inr \<lparr>flash_success = False, flash_method = ''katapult_can'',
                 flash_elapsed_seconds = elapsed env,
                 flash_error_message = Some (last_error @ '' (after 3 attempts)'')\<rparr>
       | Propagate exc \<Rightarrow> Inl exc)
      (case res of
         Return_success \<Rightarrow>
           Inr \<lparr>flash_success = True, flash_method = ''katapult_can'',
                 flash_elapsed_seconds = elapsed env, flash_error_message = None\<rparr>
       | Loop_done last_error \<Rightarrow>
           Inr \<lparr>flash_success = False, flash_method = ''katapult_can'',
                 flash_elapsed_seconds = elapsed env,
                 flash_error_message = Some (last_error @ '' (after 3 attempts)'')\<rparr>
       | Propagate exc \<Rightarrow> Inl exc)"
    using s(2) by (cases res; cases res') simp_all
  show ?thesis
    unfolding f f' Let_def prod.case
    using True l n e t s(1) k la nl
    by (cases res) auto
qed

theorem flash_katapult_can_timeout_is_retried_witness:
  "attempts_run (snd (flash_katapult_can stuck_can_env 120 CAN_RETRY_ATTEMPTS)) = [1, 2, 3] \<and>
   run_flashtool stuck_can_env 2 = Timeout_expired \<and>
   fst (flash_katapult_can stuck_can_env 120 CAN_RETRY_ATTEMPTS)
     = Inr \<lparr>flash_success = False, flash_method = ''katapult_can'',
            flash_elapsed_seconds = 366,
            flash_error_message = Some ''CAN flash timeout (120s) (after 3 attempts)''\<rparr> \<and>
   snd (flash_katapult_can timeout_then_oserror_env 120 CAN_RETRY_ATTEMPTS)
     = [Subprocess_run 1, Sleep 2, Subprocess_run 2] \<and>
   run_flashtool timeout_then_oserror_env 1 = Timeout_expired \<and>
   run_flashtool timeout_then_oserror_env 2 = Os_error ''No such file'' \<and>
   fst (flash_katapult_can timeout_then_oserror_env 120 CAN_RETRY_ATTEMPTS)
     = Inr \<lparr>flash_success = False, flash_method = ''katapult_can'',
            flash_elapsed_seconds = 121,
            flash_error_message =
              Some ''Failed to run flashtool.py: No such file (after 3 attempts)''\<rparr>"
  using flash_katapult_can_timeout_is_retried [of stuck_can_env 120]
    flash_katapult_can_timeout_is_retried [of timeout_then_oserror_env 120]
  by (simp add: stuck_can_env_def timeout_then_oserror_env_def flash_katapult_can_def
        CAN_RETRY_ATTEMPTS_def upto_1_3 str_int_def str_nat.simps digit_char_def)


section \<open>Properties of the flash dispatcher\<close>

text \<open>
  Claim C4. When the flash-strategy tag is unset or is none of the five recognized tags,
  \<open>execute_flash\<close> returns a failed result with elapsed time 0 and calls no transfer
  mechanism. A CAN device configured with \<open>make_flash\<close> is rejected in the same way.
  In every case at most one mechanism is called, it is the one of the configured tag,
  and its result is returned unchanged, so a failure is never followed by another
  strategy.
\<close>

theorem execute_flash_no_fallback:
  "let (res, calls) = execute_flash mech entry device_path firmware_path config timeout in
     ((flash_command entry = None \<or>
       (\<exists>fc. flash_command entry = Some fc \<and> fc \<notin> set recognized_flash_commands))
        \<longrightarrow> calls = [] \<and> \<not> flash_success res \<and> flash_elapsed_seconds res = 0) \<and>
     (flash_command entry = Some ''make_flash'' \<and> is_can_device entry
        \<longrightarrow> calls = [] \<and> \<not> flash_success res) \<and>
     length calls \<le> 1 \<and>
     (\<forall>c. c \<in> set calls \<longrightarrow> res = mech c \<and> flash_command entry = Some (strategy_of c))"
  by (auto simp: execute_flash_def recognized_flash_commands_def Let_def split: option.splits)

theorem execute_flash_no_fallback_witness:
  "flash_command (octopus\<lparr>flash_command := Some ''dfu''\<rparr>) = Some ''dfu'' \<and>
   ''dfu'' \<notin> set recognized_flash_commands \<and>
   execute_flash always_ok (octopus\<lparr>flash_command := Some ''dfu''\<rparr>)
       ''/dev/serial/by-id/usb-katapult_stm32h723xx_29001A-if00'' ''/tmp/klipper.bin''
       sample_config 60
     = (\<lparr>flash_success = False, flash_method = ''dfu'', flash_elapsed_seconds = 0,
         flash_error_message = Some ''Unknown flash command: dfu''\<rparr>, []) \<and>
   is_can_device (toolhead\<lparr>flash_command := Some ''make_flash''\<rparr>) \<and>
   snd (execute_flash always_ok (toolhead\<lparr>flash_command := Some ''make_flash''\<rparr>)
       [] ''/tmp/klipper.bin'' sample_config 120) = []"
  using execute_flash_no_fallback [of always_ok "octopus\<lparr>flash_command := Some ''dfu''\<rparr>"
      "''/dev/serial/by-id/usb-katapult_stm32h723xx_29001A-if00''" "''/tmp/klipper.bin''"
      sample_config 60]
  by (simp add: execute_flash_def recognized_flash_commands_def octopus_def toolhead_def
        is_can_device_def)


section \<open>Properties of the service lifecycle guard\<close>




section \<open>Properties of the single-device flash\<close>






section \<open>Properties of two-phase polling\<close>

lemma reappearance_success:
  "reappearance_phase osig dl iv trace = (Some (Some p), evs) \<Longrightarrow>
     \<exists>fs fname. Scan_phase2 fs \<in> set evs \<and> fname \<in> set fs \<and> same_signature osig fname \<and>
        p = path_join SERIAL_DIR fname"
proof (induction trace arbitrary: evs)
  case Nil
  then show ?case by simp
next
  case (Cons a trace)
  obtain t fs where a: "a = (t, fs)" by (cases a)
  show ?case
  proof (cases "t < dl")
    case False
    with Cons.prems a show ?thesis by simp
  next
    case True
    show ?thesis
    proof (cases "find (same_signature osig) fs")
      case (Some fname)
      then have "fname \<in> set fs" "same_signature osig fname"
        by (auto simp: find_Some_iff)
      with Cons.prems a True Some show ?thesis by auto
    next
      case None
      obtain r1 evs1 where rec: "reappearance_phase osig dl iv trace = (r1, evs1)"
        by (cases "reappearance_phase osig dl iv trace")
      with Cons.prems a True None have "r1 = Some (Some p)" and
        evs: "evs = Scan_phase2 fs # (if iv > 0 then [Poll_sleep iv] else []) @ evs1"
        by auto
      with Cons.IH rec obtain fs' fname where
        "Scan_phase2 fs' \<in> set evs1" "fname \<in> set fs'" "same_signature osig fname"
        "p = path_join SERIAL_DIR fname" by blast
      with evs show ?thesis by auto
    qed
  qed
qed

lemma disappearance_success:
  "disappearance_phase ofn osig dl iv trace = (Some (Some p), evs) \<Longrightarrow>
     (\<exists>fs1. Scan_phase1 fs1 \<in> set evs \<and> ofn \<notin> set fs1) \<and>
     (\<exists>fs fname. Scan_phase2 fs \<in> set evs \<and> fname \<in> set fs \<and> same_signature osig fname \<and>
        p = path_join SERIAL_DIR fname)"
proof (induction trace arbitrary: evs)
  case Nil
  then show ?case by simp
next
  case (Cons a trace)
  obtain t fs where a: "a = (t, fs)" by (cases a)
  show ?case
  proof (cases "t < dl")
    case False
    with Cons.prems a show ?thesis by simp
  next
    case True
    show ?thesis
    proof (cases "ofn \<in> set fs")
      case False
      obtain r1 evs1 where rec: "reappearance_phase osig dl iv trace = (r1, evs1)"
        by (cases "reappearance_phase osig dl iv trace")
      with Cons.prems a True False have "r1 = Some (Some p)" and
        evs: "evs = Scan_phase1 fs # evs1" by auto
      with reappearance_success rec obtain fs' fname where
        "Scan_phase2 fs' \<in> set evs1" "fname \<in> set fs'" "same_signature osig fname"
        "p = path_join SERIAL_DIR fname" by blast
      with evs False show ?thesis by auto
    next
      case in_fs: True
      obtain r1 evs1 where rec: "disappearance_phase ofn osig dl iv trace = (r1, evs1)"
        by (cases "disappearance_phase ofn osig dl iv trace")
      with Cons.prems a True in_fs have "r1 = Some (Some p)" and
        evs: "evs = Scan_phase1 fs # (if iv > 0 then [Poll_sleep iv] else []) @ evs1"
        by auto
      with Cons.IH rec have
        "(\<exists>fs1. Scan_phase1 fs1 \<in> set evs1 \<and> ofn \<notin> set fs1) \<and>
         (\<exists>fs fname. Scan_phase2 fs \<in> set evs1 \<and> fname \<in> set fs \<and> same_signature osig fname \<and>
           p = path_join SERIAL_DIR fname)" by blast
      with evs show ?thesis by auto
    qed
  qed
qed

lemma disappearance_never_left:
  "\<forall>(t, fs) \<in> set (takeWhile (\<lambda>(t, fs). t < dl) trace). ofn \<in> set fs \<Longrightarrow>
   disappearance_phase ofn osig dl iv trace = (r, evs) \<Longrightarrow>
     (\<forall>e \<in> set evs. \<not> is_phase2 e) \<and>
     r = (if \<exists>(t, fs) \<in> set trace. dl \<le> t then Some None else None)"
proof (induction trace arbitrary: r evs)
  case Nil
  then show ?case by simp
next
  case (Cons a trace)
  obtain t fs where a: "a = (t, fs)" by (cases a)
  show ?case
  proof (cases "t < dl")
    case False
    with Cons.prems a show ?thesis by auto
  next
    case True
    with Cons.prems(1) a have in_fs: "ofn \<in> set fs"
      and rest: "\<forall>(t, fs) \<in> set (takeWhile (\<lambda>(t, fs). t < dl) trace). ofn \<in> set fs"
      by auto
    obtain r1 evs1 where rec: "disappearance_phase ofn osig dl iv trace = (r1, evs1)"
      by (cases "disappearance_phase ofn osig dl iv trace")
    with Cons.prems(2) a True in_fs have r: "r = r1" and
      evs: "evs = Scan_phase1 fs # (if iv > 0 then [Poll_sleep iv] else []) @ evs1"
      by auto
    from Cons.IH [OF rest rec] r evs True a show ?thesis
      by (auto simp: is_phase2_def)
  qed
qed

lemma disappearance_order:
  "disappearance_phase ofn osig dl iv trace = (r, evs) \<Longrightarrow> i < length evs \<Longrightarrow>
   is_phase2 (evs ! i) \<Longrightarrow> \<exists>j<i. \<exists>fs. evs ! j = Scan_phase1 fs \<and> ofn \<notin> set fs"
proof (induction trace arbitrary: r evs i)
  case Nil
  then show ?case by simp
next
  case (Cons a trace)
  obtain t fs where a: "a = (t, fs)" by (cases a)
  show ?case
  proof (cases "t < dl")
    case False
    with Cons.prems a show ?thesis by simp
  next
    case True
    show ?thesis
    proof (cases "ofn \<in> set fs")
      case False
      obtain r1 evs1 where rec: "reappearance_phase osig dl iv trace = (r1, evs1)"
        by (cases "reappearance_phase osig dl iv trace")
      with Cons.prems a True False have evs: "evs = Scan_phase1 fs # evs1" by auto
      with Cons.prems(3) have "0 < i" by (cases i) (auto simp: is_phase2_def)
      moreover from evs have "evs ! 0 = Scan_phase1 fs" by simp
      ultimately show ?thesis using False by blast
    next
      case in_fs: True
      obtain r1 evs1 where rec: "disappearance_phase ofn osig dl iv trace = (r1, evs1)"
        by (cases "disappearance_phase ofn osig dl iv trace")
      define pre where "pre = Scan_phase1 fs # (if iv > 0 then [Poll_sleep iv] else [])"
      from rec Cons.prems a True in_fs have evs: "evs = pre @ evs1" by (auto simp: pre_def)
      have pre: "\<forall>e \<in> set pre. \<not> is_phase2 e" by (auto simp: is_phase2_def pre_def)
      have "\<not> i < length pre"
      proof
        assume "i < length pre"
        then have "evs ! i \<in> set pre" unfolding evs by (metis nth_append nth_mem)
        with pre Cons.prems(3) show False by blast
      qed
      then have i: "length pre \<le> i" by simp
      then have nth: "evs ! i = evs1 ! (i - length pre)" unfolding evs by (simp add: nth_append)
      from i Cons.prems(2) have "i - length pre < length evs1" unfolding evs by auto
      with nth Cons.IH [OF rec] Cons.prems(3)
      obtain j fs' where j: "j < i - length pre" "evs1 ! j = Scan_phase1 fs'"
        "ofn \<notin> set fs'" by metis
      from j(1) i have "length pre + j < i" by simp
      moreover from j(2) have "evs ! (length pre + j) = Scan_phase1 fs'"
        unfolding evs by simp
      ultimately show ?thesis using j(3) by blast
    qed
  qed
qed

lemma basename_octopus: "basename octopus_klipper_path = octopus_klipper_name"
  by (simp add: basename_def octopus_klipper_path_def octopus_klipper_name_def)

lemma sig_octopus_klipper:
  "extract_device_signature octopus_klipper_name = Some (''stm32h723xx'', ''29001A'')"
  by (simp add: octopus_klipper_name_def signature_at_def startswith_def is_alnum_def
        is_hex_def lower_def lower_char_def)

lemma sig_octopus_katapult:
  "extract_device_signature octopus_katapult_name = Some (''stm32h723xx'', ''29001A'')"
  by (simp add: octopus_katapult_name_def signature_at_def startswith_def is_alnum_def
        is_hex_def lower_def lower_char_def)

lemma octopus_names_distinct: "octopus_klipper_name \<noteq> octopus_katapult_name"
  by (simp add: octopus_klipper_name_def octopus_katapult_name_def)

lemma reboot_poll:
  "poll_for_reenumeration octopus_klipper_path pat TIMEOUT_REENUMERATION POLL_INTERVAL
       (999 / 10) reboot_trace
     = (Some (Some (path_join SERIAL_DIR octopus_katapult_name)),
        [Scan_phase1 [octopus_klipper_name], Poll_sleep 1, Scan_phase1 [],
         Scan_phase2 [], Poll_sleep 1, Scan_phase2 [octopus_katapult_name]])"
  by (simp add: poll_for_reenumeration_def basename_octopus sig_octopus_klipper
        sig_octopus_katapult same_signature_def reboot_trace_def TIMEOUT_REENUMERATION_def
        POLL_INTERVAL_def)

lemma never_left_poll:
  "fst (poll_for_reenumeration octopus_klipper_path pat TIMEOUT_REENUMERATION POLL_INTERVAL
       (999 / 10) never_left_trace) = Some None"
  by (simp add: poll_for_reenumeration_def basename_octopus never_left_trace_def
        TIMEOUT_REENUMERATION_def POLL_INTERVAL_def)

text \<open>
  Claim C2. In the event list of \<open>_poll_for_reenumeration\<close>, every reappearance scan
  comes after a disappearance scan whose listing lacks the original filename, and a
  returned path implies such a scan. If the original filename is in the listing of
  every scan made before the deadline, then no reappearance scan is made and no path is
  returned, whatever signatures those listings contain; and once the clock reaches the
  deadline the function returns \<open>None\<close>.
\<close>

theorem poll_disappearance_before_reappearance:
  "let (r, evs) = poll_for_reenumeration original_path pattern timeout interval start trace;
       ofn = basename original_path;
       deadline = start + timeout
   in (\<forall>i. i < length evs \<and> is_phase2 (evs ! i) \<longrightarrow>
          (\<exists>j<i. \<exists>fs. evs ! j = Scan_phase1 fs \<and> ofn \<notin> set fs)) \<and>
      (\<forall>p. r = Some (Some p) \<longrightarrow> (\<exists>fs. Scan_phase1 fs \<in> set evs \<and> ofn \<notin> set fs)) \<and>
      ((\<forall>(t, fs) \<in> set (takeWhile (\<lambda>(t, fs). t < deadline) trace). ofn \<in> set fs) \<longrightarrow>
         (\<forall>e \<in> set evs. \<not> is_phase2 e) \<and> (\<forall>p. r \<noteq> Some (Some p)) \<and>
         ((\<exists>(t, fs) \<in> set trace. deadline \<le> t) \<longrightarrow> r = Some None))"
proof -
  obtain r evs where p:
    "disappearance_phase (basename original_path)
       (extract_device_signature (basename original_path)) (start + timeout) interval trace
     = (r, evs)"
    by (cases "disappearance_phase (basename original_path)
       (extract_device_signature (basename original_path)) (start + timeout) interval trace")
  have 1: "\<forall>i. i < length evs \<and> is_phase2 (evs ! i) \<longrightarrow>
          (\<exists>j<i. \<exists>fs. evs ! j = Scan_phase1 fs \<and> basename original_path \<notin> set fs)"
    using disappearance_order [OF p] by blast
  have 2: "\<forall>p. r = Some (Some p) \<longrightarrow>
          (\<exists>fs. Scan_phase1 fs \<in> set evs \<and> basename original_path \<notin> set fs)"
    using disappearance_success p by blast
  have 3: "(\<forall>(t, fs) \<in> set (takeWhile (\<lambda>(t, fs). t < start + timeout) trace).
              basename original_path \<in> set fs) \<longrightarrow>
         (\<forall>e \<in> set evs. \<not> is_phase2 e) \<and> (\<forall>p. r \<noteq> Some (Some p)) \<and>
         ((\<exists>(t, fs) \<in> set trace. start + timeout \<le> t) \<longrightarrow> r = Some None)"
    using disappearance_never_left [OF _ p] by (auto split: if_splits)
  from 1 2 3 show ?thesis
    unfolding poll_for_reenumeration_def p Let_def prod.case by blast
qed

theorem poll_disappearance_before_reappearance_witness:
  "same_signature (extract_device_signature octopus_klipper_name) octopus_katapult_name \<and>
   basename octopus_klipper_path = octopus_klipper_name \<and>
   fst (poll_for_reenumeration octopus_klipper_path (serial_pattern octopus) TIMEOUT_REENUMERATION
        POLL_INTERVAL (999 / 10) never_left_trace) = Some None \<and>
   fst (poll_for_reenumeration octopus_klipper_path (serial_pattern octopus) TIMEOUT_REENUMERATION
        POLL_INTERVAL (999 / 10) reboot_trace)
     = Some (Some (path_join SERIAL_DIR octopus_katapult_name))"
  using poll_disappearance_before_reappearance [of octopus_klipper_path "serial_pattern octopus"
          TIMEOUT_REENUMERATION POLL_INTERVAL "999 / 10" never_left_trace]
  by (simp add: reboot_poll never_left_poll basename_octopus same_signature_def
        sig_octopus_klipper sig_octopus_katapult)


section \<open>Properties of the bootloader entry handlers\<close>

lemma poll_and_finish_success:
  assumes "poll_and_finish msg device_path device_entry stagger env = (Some (Normal br), evs)"
    and "boot_success br"
  shows "reappearance_confirmed device_path br evs"
proof -
  obtain r pevs where p: "poll_for_reenumeration device_path (serial_pattern device_entry)
             TIMEOUT_REENUMERATION POLL_INTERVAL (poll_start env) (poll_trace env) = (r, pevs)"
    by (cases "poll_for_reenumeration device_path (serial_pattern device_entry)
             TIMEOUT_REENUMERATION POLL_INTERVAL (poll_start env) (poll_trace env)")
  with assms obtain new_path where r: "r = Some (Some new_path)"
    and br: "boot_device_path br = Some new_path"
    and evs: "evs = map Ev_poll pevs @ (if stagger > 0 then [Ev_stagger_sleep stagger] else [])"
    by (auto simp: poll_and_finish_def boot_failure_def split: option.splits)
  from p r have "disappearance_phase (basename device_path)
       (extract_device_signature (basename device_path))
       (poll_start env + TIMEOUT_REENUMERATION) POLL_INTERVAL (poll_trace env)
       = (Some (Some new_path), pevs)"
    by (simp add: poll_for_reenumeration_def)
  from disappearance_success [OF this] br evs show ?thesis
    unfolding reappearance_confirmed_def by auto
qed

lemma poll_and_finish_events:
  "\<exists>post. snd (poll_and_finish msg device_path device_entry stagger env)
      = polling_events device_path device_entry env @ post"
  by (auto simp: poll_and_finish_def polling_events_def split: prod.splits option.splits)

lemma usb_reboot_run:
  "enter_usb octopus_klipper_path octopus 2 operator_env
     = (Some (Normal \<lparr>boot_success = True,
                       boot_device_path = Some (path_join SERIAL_DIR octopus_katapult_name),
                       boot_error_message = None\<rparr>),
        [Ev_mode_change_cmd, Ev_poll (Scan_phase1 [octopus_klipper_name]),
         Ev_poll (Poll_sleep 1), Ev_poll (Scan_phase1 []), Ev_poll (Scan_phase2 []),
         Ev_poll (Poll_sleep 1), Ev_poll (Scan_phase2 [octopus_katapult_name]),
         Ev_stagger_sleep 2])"
  by (simp add: enter_usb_def poll_and_finish_def operator_env_def reboot_poll)

text \<open>
  Claim C9, as stated, fails for the manual strategy: for a device whose flash command
  is \<open>uf2_mount\<close>, the manual handler returns success as soon as the operator has
  pressed Enter, with no path and without any polling.
\<close>

theorem manual_uf2_skips_polling:
  "bootloader_method pico = Some ''manual'' \<and>
   enter_manual pico_path pico 2 True operator_env
     = (Some (Normal \<lparr>boot_success = True, boot_device_path = None,
                       boot_error_message = None\<rparr>),
        [Ev_info_prompt, Ev_input])"
  by (simp add: enter_manual_def pico_def operator_env_def)

text \<open>
  Claim C9, amended. When the USB handler, the serial handler, or the manual handler of
  a device whose flash command is not \<open>uf2_mount\<close> returns a successful result, then the
  handler has issued its mode-change step (the command, or the operator's input) and
  performed the two-phase polling after it, a disappearance scan has found the original
  filename absent, and the returned path is that of an endpoint found by a reappearance
  scan whose signature is the original one. For a \<open>uf2_mount\<close> device the manual
  handler returns success without a path once the operator has pressed Enter. In the
  other cases the polling follows whenever the mode-change step completes: the command
  has run to its end, or the operator has pressed Enter.
\<close>

theorem handlers_success_needs_reappearance:
  "(\<forall>br evs. enter_usb device_path device_entry stagger env = (Some (Normal br), evs) \<and>
        boot_success br \<longrightarrow>
        reappearance_confirmed device_path br evs \<and>
        (\<exists>post. evs = Ev_mode_change_cmd # polling_events device_path device_entry env @ post)) \<and>
   (\<forall>br evs. enter_serial device_path device_entry stagger env = (Some (Normal br), evs) \<and>
        boot_success br \<longrightarrow>
        reappearance_confirmed device_path br evs \<and>
        (\<exists>post. evs = Ev_mode_change_cmd # polling_events device_path device_entry env @ post)) \<and>
   (\<forall>br evs. enter_manual device_path device_entry stagger out_present env
          = (Some (Normal br), evs) \<and>
        boot_success br \<and> flash_command device_entry \<noteq> Some ''uf2_mount'' \<longrightarrow>
        reappearance_confirmed device_path br evs \<and>
        (\<exists>pre post. evs = pre @ [Ev_input] @ polling_events device_path device_entry env @ post)) \<and>
   (flash_command device_entry = Some ''uf2_mount'' \<and> operator_input env = Line_entered \<longrightarrow>
      enter_manual device_path device_entry stagger out_present env
        = (Some (Normal \<lparr>boot_success = True, boot_device_path = None,
                          boot_error_message = None\<rparr>),
           (if out_present then [Ev_info_prompt] else []) @ [Ev_input])) \<and>
   ((\<exists>rc out err. mode_change_run env = Completed rc out err) \<longrightarrow>
      (\<exists>post. snd (enter_usb device_path device_entry stagger env)
         = Ev_mode_change_cmd # polling_events device_path device_entry env @ post)) \<and>
   ((\<exists>rc out err. mode_change_run env = Completed rc out err) \<and> boot_flashtool_exists env
      \<longrightarrow>
      (\<exists>post. snd (enter_serial device_path device_entry stagger env)
         = Ev_mode_change_cmd # polling_events device_path device_entry env @ post)) \<and>
   (operator_input env = Line_entered \<and> flash_command device_entry \<noteq> Some ''uf2_mount''
      \<longrightarrow>
      (\<exists>post. snd (enter_manual device_path device_entry stagger out_present env)
         = (if out_present then [Ev_info_prompt] else []) @ [Ev_input] @
           polling_events device_path device_entry env @ post))"
proof (intro conjI allI impI)
  fix br evs
  assume a: "enter_usb device_path device_entry stagger env = (Some (Normal br), evs) \<and>
        boot_success br"
  obtain r pevs where p: "poll_and_finish
                 ''Device did not re-enumerate after USB bootloader entry''
                 device_path device_entry stagger env = (r, pevs)"
    by (cases "poll_and_finish
                 ''Device did not re-enumerate after USB bootloader entry''
                 device_path device_entry stagger env")
  from a p have r: "r = Some (Normal br)" and evs: "evs = Ev_mode_change_cmd # pevs"
    by (auto simp: enter_usb_def boot_failure_def split: captured.splits)
  from poll_and_finish_success [of _ device_path device_entry stagger env br pevs] p r a
  have "reappearance_confirmed device_path br pevs" by simp
  then show "reappearance_confirmed device_path br evs"
    unfolding evs reappearance_confirmed_def by auto
  from poll_and_finish_events [of "''Device did not re-enumerate after USB bootloader entry''"
      device_path device_entry stagger env] p evs
  show "\<exists>post. evs = Ev_mode_change_cmd # polling_events device_path device_entry env @ post"
    by auto
next
  fix br evs
  assume a: "enter_serial device_path device_entry stagger env = (Some (Normal br), evs) \<and>
        boot_success br"
  obtain r pevs where p: "poll_and_finish
                 ''Device did not re-enumerate after serial bootloader entry''
                 device_path device_entry stagger env = (r, pevs)"
    by (cases "poll_and_finish
                 ''Device did not re-enumerate after serial bootloader entry''
                 device_path device_entry stagger env")
  from a p have r: "r = Some (Normal br)" and evs: "evs = Ev_mode_change_cmd # pevs"
    by (auto simp: enter_serial_def boot_failure_def split: captured.splits if_splits)
  from poll_and_finish_success [of _ device_path device_entry stagger env br pevs] p r a
  have "reappearance_confirmed device_path br pevs" by simp
  then show "reappearance_confirmed device_path br evs"
    unfolding evs reappearance_confirmed_def by auto
  from poll_and_finish_events [of "''Device did not re-enumerate after serial bootloader entry''"
      device_path device_entry stagger env] p evs
  show "\<exists>post. evs = Ev_mode_change_cmd # polling_events device_path device_entry env @ post"
    by auto
next
  fix br evs
  assume a: "enter_manual device_path device_entry stagger out_present env
          = (Some (Normal br), evs) \<and>
        boot_success br \<and> flash_command device_entry \<noteq> Some ''uf2_mount''"
  obtain r pevs where p: "poll_and_finish
                 ''Device did not re-enumerate after manual bootloader entry''
                 device_path device_entry stagger env = (r, pevs)"
    by (cases "poll_and_finish
                 ''Device did not re-enumerate after manual bootloader entry''
                 device_path device_entry stagger env")
  from a p have r: "r = Some (Normal br)"
    and evs: "evs = (if out_present then [Ev_info_prompt] else []) @ [Ev_input] @ pevs"
    by (auto simp: enter_manual_def boot_failure_def Let_def split: input_outcome.splits)
  from poll_and_finish_success [of _ device_path device_entry stagger env br pevs] p r a
  have "reappearance_confirmed device_path br pevs" by simp
  then show "reappearance_confirmed device_path br evs"
    unfolding evs reappearance_confirmed_def by auto
  from poll_and_finish_events [of "''Device did not re-enumerate after manual bootloader entry''"
      device_path device_entry stagger env] p
  obtain post where "pevs = polling_events device_path device_entry env @ post" by auto
  with evs have "evs = (if out_present then [Ev_info_prompt] else []) @ [Ev_input] @
      polling_events device_path device_entry env @ post" by simp
  then show "\<exists>pre post. evs = pre @ [Ev_input] @ polling_events device_path device_entry env @ post"
    by blast
next
  assume "flash_command device_entry = Some ''uf2_mount'' \<and> operator_input env = Line_entered"
  then show "enter_manual device_path device_entry stagger out_present env
        = (Some (Normal \<lparr>boot_success = True, boot_device_path = None,
                          boot_error_message = None\<rparr>),
           (if out_present then [Ev_info_prompt] else []) @ [Ev_input])"
    by (simp add: enter_manual_def)
next
  assume "\<exists>rc out err. mode_change_run env = Completed rc out err"
  then obtain rc out err where c: "mode_change_run env = Completed rc out err" by blast
  from poll_and_finish_events [of "''Device did not re-enumerate after USB bootloader entry''"
      device_path device_entry stagger env]
  obtain post where "snd (poll_and_finish
      ''Device did not re-enumerate after USB bootloader entry''
      device_path device_entry stagger env)
        = polling_events device_path device_entry env @ post" by blast
  with c show "\<exists>post. snd (enter_usb device_path device_entry stagger env)
         = Ev_mode_change_cmd # polling_events device_path device_entry env @ post"
    by (auto simp: enter_usb_def split: prod.splits)
next
  assume "(\<exists>rc out err. mode_change_run env = Completed rc out err) \<and>
          boot_flashtool_exists env"
  then obtain rc out err where c: "mode_change_run env = Completed rc out err"
    and f: "boot_flashtool_exists env" by blast
  from poll_and_finish_events
      [of "''Device did not re-enumerate after serial bootloader entry''"
      device_path device_entry stagger env]
  obtain post where "snd (poll_and_finish
      ''Device did not re-enumerate after serial bootloader entry''
      device_path device_entry stagger env)
        = polling_events device_path device_entry env @ post" by blast
  with c f show "\<exists>post. snd (enter_serial device_path device_entry stagger env)
         = Ev_mode_change_cmd # polling_events device_path device_entry env @ post"
    by (auto simp: enter_serial_def split: prod.splits)
next
  assume a: "operator_input env = Line_entered \<and>
             flash_command device_entry \<noteq> Some ''uf2_mount''"
  from poll_and_finish_events
      [of "''Device did not re-enumerate after manual bootloader entry''"
      device_path device_entry stagger env]
  obtain post where "snd (poll_and_finish
      ''Device did not re-enumerate after manual bootloader entry''
      device_path device_entry stagger env)
        = polling_events device_path device_entry env @ post" by blast
  with a show "\<exists>post. snd (enter_manual device_path device_entry stagger out_present env)
         = (if out_present then [Ev_info_prompt] else []) @ [Ev_input] @
           polling_events device_path device_entry env @ post"
    by (auto simp: enter_manual_def Let_def split: prod.splits)
qed

theorem handlers_success_needs_reappearance_witness:
  "enter_usb octopus_klipper_path octopus 2 operator_env
     = (Some (Normal \<lparr>boot_success = True,
                       boot_device_path = Some (path_join SERIAL_DIR octopus_katapult_name),
                       boot_error_message = None\<rparr>),
        [Ev_mode_change_cmd, Ev_poll (Scan_phase1 [octopus_klipper_name]),
         Ev_poll (Poll_sleep 1), Ev_poll (Scan_phase1 []), Ev_poll (Scan_phase2 []),
         Ev_poll (Poll_sleep 1), Ev_poll (Scan_phase2 [octopus_katapult_name]),
         Ev_stagger_sleep 2]) \<and>
   reappearance_confirmed octopus_klipper_path
     \<lparr>boot_success = True,
      boot_device_path = Some (path_join SERIAL_DIR octopus_katapult_name),
      boot_error_message = None\<rparr>
     [Ev_mode_change_cmd, Ev_poll (Scan_phase1 [octopus_klipper_name]),
      Ev_poll (Poll_sleep 1), Ev_poll (Scan_phase1 []), Ev_poll (Scan_phase2 []),
      Ev_poll (Poll_sleep 1), Ev_poll (Scan_phase2 [octopus_katapult_name]),
      Ev_stagger_sleep 2]"
  using handlers_success_needs_reappearance [of octopus_klipper_path octopus 2 operator_env]
  by (simp add: usb_reboot_run)


section \<open>Properties of device matching\<close>

lemma translate_append:
  "CHR ''['' \<notin> set p \<Longrightarrow> translate (p @ q) = translate p @ translate q"
  by (induction p) auto

lemma star_skip: "glob_match ts s \<Longrightarrow> glob_match (Star # ts) s"
  by (cases s) auto

lemma star_all: "glob_match [Star] s"
  by (induction s) auto

lemma glob_match_self:
  "CHR ''['' \<notin> set p \<Longrightarrow> glob_match ts r \<Longrightarrow> glob_match (translate p @ ts) (p @ r)"
  by (induction p) (auto intro: star_skip)

lemma fnmatch_own_prefix:
  assumes "CHR ''['' \<notin> set base"
  shows "fnmatch (base @ r) (base @ ''*'')"
proof -
  have "translate (base @ ''*'') = translate base @ [Star]"
    using assms by (simp add: translate_append)
  with glob_match_self [OF assms star_all, of r] show ?thesis
    by (simp add: fnmatch_def)
qed

lemma strip_if_suffix_prefix:
  "CHR 0x0A \<notin> set s \<Longrightarrow> \<exists>r. s = strip_if_suffix s @ r"
proof (induction s)
  case Nil
  then show ?case by simp
next
  case (Cons c s)
  show ?case
  proof (cases "if_suffix_here (c # s)")
    case True
    define t where "t = dropWhile is_digit (drop 3 (c # s))"
    from True have "t = [] \<or> t = [CHR 0x0A]"
      by (simp add: if_suffix_here_def t_def)
    moreover have "set t \<subseteq> set (c # s)"
      unfolding t_def by (meson set_drop_subset set_dropWhileD subsetI subset_trans in_mono)
    ultimately have "t = []"
      using Cons.prems by auto
    moreover from True have "strip_if_suffix (c # s) = t" by (simp add: t_def)
    ultimately show ?thesis by simp
  next
    case False
    with Cons show ?thesis by auto
  qed
qed

lemma strip_klipper:
  "strip_if_suffix (''usb-Klipper_'' @ s) = ''usb-Klipper_'' @ strip_if_suffix s"
  by (simp add: if_suffix_here_def startswith_def)

lemma strip_katapult:
  "strip_if_suffix (''usb-katapult_'' @ s) = ''usb-katapult_'' @ strip_if_suffix s"
  by (simp add: if_suffix_here_def startswith_def)

lemma variants_klipper:
  "prefix_variants (''usb-Klipper_'' @ x) = [''usb-Klipper_'' @ x, ''usb-katapult_'' @ x]"
  by (simp add: prefix_variants_def lower_def lower_char_def startswith_def)

lemma variants_katapult:
  "prefix_variants (''usb-katapult_'' @ x) = [''usb-katapult_'' @ x, ''usb-Klipper_'' @ x]"
  by (simp add: prefix_variants_def lower_def lower_char_def startswith_def)

text \<open>
  Claim C5, as stated, fails for a filename that contains a bracket expression: the
  pattern built from the normal-mode filename reads \<open>[1]\<close> as a character set, so it
  does not match the bootloader-mode filename with the same text after the prefix.
\<close>

theorem bracket_filename_not_matched:
  "match_devices (generate_serial_pattern ''usb-Klipper_rp2040_E661[1]-if00'')
     [dev ''usb-katapult_rp2040_E661[1]-if00''] = []"
  by (simp add: match_devices_def matches_variant_def generate_serial_pattern_def
        if_suffix_here_def startswith_def is_digit_def prefix_variants_def lower_def
        lower_char_def fnmatch_def split_class_def class_token_def in_item_def dev_def)

text \<open>
  Claim C5, amended. Let \<open>s\<close> be the text after the prefix, free of the character \<open>[\<close>
  and of newlines. Then the pattern generated from \<open>usb-Klipper_s\<close> matches the endpoint
  named \<open>usb-katapult_s\<close>, and the pattern generated from \<open>usb-katapult_s\<close> matches the
  endpoint named \<open>usb-Klipper_s\<close>: \<open>match_devices\<close> returns every such endpoint of the
  listing.
\<close>

theorem match_devices_prefix_agnostic:
  assumes "CHR ''['' \<notin> set s" and "CHR 0x0A \<notin> set s"
  shows "(d \<in> set devices \<and> filename d = ''usb-katapult_'' @ s \<longrightarrow>
            d \<in> set (match_devices (generate_serial_pattern (''usb-Klipper_'' @ s)) devices)) \<and>
         (d \<in> set devices \<and> filename d = ''usb-Klipper_'' @ s \<longrightarrow>
            d \<in> set (match_devices (generate_serial_pattern (''usb-katapult_'' @ s)) devices))"
proof -
  from strip_if_suffix_prefix [OF assms(2)] obtain r where r: "s = strip_if_suffix s @ r" ..
  then have "set (strip_if_suffix s) \<subseteq> set s" by (metis set_append Un_upper1)
  with assms(1) have nb: "CHR ''['' \<notin> set (strip_if_suffix s)" by auto
  have kat: "fnmatch (''usb-katapult_'' @ s) (''usb-katapult_'' @ strip_if_suffix s @ ''*'')"
    using fnmatch_own_prefix [of "''usb-katapult_'' @ strip_if_suffix s" r] nb r by simp
  have kli: "fnmatch (''usb-Klipper_'' @ s) (''usb-Klipper_'' @ strip_if_suffix s @ ''*'')"
    using fnmatch_own_prefix [of "''usb-Klipper_'' @ strip_if_suffix s" r] nb r by simp
  have v1: "prefix_variants (generate_serial_pattern (''usb-Klipper_'' @ s))
              = [''usb-Klipper_'' @ strip_if_suffix s @ ''*'',
                 ''usb-katapult_'' @ strip_if_suffix s @ ''*'']"
    unfolding generate_serial_pattern_def strip_klipper
    using variants_klipper [of "strip_if_suffix s @ ''*''"] by simp
  have v2: "prefix_variants (generate_serial_pattern (''usb-katapult_'' @ s))
              = [''usb-katapult_'' @ strip_if_suffix s @ ''*'',
                 ''usb-Klipper_'' @ strip_if_suffix s @ ''*'']"
    unfolding generate_serial_pattern_def strip_katapult
    using variants_katapult [of "strip_if_suffix s @ ''*''"] by simp
  have m1: "matches_variant (generate_serial_pattern (''usb-Klipper_'' @ s)) d"
    if "filename d = ''usb-katapult_'' @ s"
    unfolding matches_variant_def v1 list_ex_iff that using kat by (meson list.set_intros)
  have m2: "matches_variant (generate_serial_pattern (''usb-katapult_'' @ s)) d"
    if "filename d = ''usb-Klipper_'' @ s"
    unfolding matches_variant_def v2 list_ex_iff that using kli by (meson list.set_intros)
  show ?thesis
    unfolding match_devices_def set_filter using m1 m2 by blast
qed

theorem match_devices_prefix_agnostic_witness:
  "CHR ''['' \<notin> set ''stm32h723xx_29001A-if00'' \<and>
   CHR 0x0A \<notin> set ''stm32h723xx_29001A-if00'' \<and>
   dev (''usb-katapult_'' @ ''stm32h723xx_29001A-if00'')
     \<in> set (match_devices (generate_serial_pattern (''usb-Klipper_'' @ ''stm32h723xx_29001A-if00''))
              [dev ''usb-Beacon_Beacon_RevH_FC2-if00'',
               dev (''usb-katapult_'' @ ''stm32h723xx_29001A-if00'')])"
proof -
  have h1: "CHR ''['' \<notin> set ''stm32h723xx_29001A-if00''" by simp
  have h2: "CHR 0x0A \<notin> set ''stm32h723xx_29001A-if00''" by simp
  from match_devices_prefix_agnostic [OF h1 h2,
      of "dev (''usb-katapult_'' @ ''stm32h723xx_29001A-if00'')"
         "[dev ''usb-Beacon_Beacon_RevH_FC2-if00'',
           dev (''usb-katapult_'' @ ''stm32h723xx_29001A-if00'')]"]
  have "dev (''usb-katapult_'' @ ''stm32h723xx_29001A-if00'')
     \<in> set (match_devices (generate_serial_pattern (''usb-Klipper_'' @ ''stm32h723xx_29001A-if00''))
              [dev ''usb-Beacon_Beacon_RevH_FC2-if00'',
               dev (''usb-katapult_'' @ ''stm32h723xx_29001A-if00'')])"
    by (simp add: dev_def)
  with h1 h2 show ?thesis by blast
qed


section \<open>Properties of post-flash verification\<close>






lemmas match_eval = matches_variant_def prefix_variants_def lower_def lower_char_def
  startswith_def fnmatch_def dev_def path_join_def SERIAL_DIR_def is_normal_name_def
  is_bootloader_name_def

lemma pico_family_matches:
  "matches_variant pico_family_pattern pico1" "matches_variant pico_family_pattern pico2"
  "matches_variant pico_family_pattern pico1_boot" "\<not> matches_variant pico_family_pattern probe"
  by (simp_all add: match_eval pico_family_pattern_def pico1_def pico2_def pico1_boot_def
        probe_def)



lemma sample_paths:
  "path pico1 = ''/dev/serial/by-id/usb-Klipper_rp2040_E661-if00''"
  "path pico2 = ''/dev/serial/by-id/usb-Klipper_rp2040_E662-if00''"
  "path probe = ''/dev/serial/by-id/usb-Beacon_rp2040_E661-if00''"
  "path pico1_boot = ''/dev/serial/by-id/usb-katapult_rp2040_E661-if00''"
  by (simp_all add: match_eval pico1_def pico2_def probe_def pico1_boot_def)






section \<open>Properties of the batch sequencer\<close>

lemma flash_one_ambiguous:
  "key entry \<in> amb \<Longrightarrow> \<not> is_can_device entry \<Longrightarrow>
   flash_one env amb st idx entry result =
     (None, failed_with result ''Pattern matches multiple connected USB devices'', st, [])"
  by (simp add: flash_one_def usb_step_def)

lemma stagger_pause_actions:
  "stagger_pause env idx prev entry = (sp, stagger) \<Longrightarrow> a \<in> set stagger \<Longrightarrow> is_stagger a"
  by (auto simp: stagger_pause_def is_stagger_def split: if_splits)

lemma flash_loop_tags:
  "flash_loop env amb idx prev st built = (x, results, trail) \<Longrightarrow>
   (\<forall>j a. (j, a) \<in> set trail \<longrightarrow> idx \<le> j) \<and> (\<forall>j e. x = Some (j, e) \<longrightarrow> idx \<le> j)"
proof (induction built arbitrary: idx prev st x results trail)
  case Nil
  then show ?case by simp
next
  case (Cons b built)
  obtain entry result where b: "b = (entry, result)" by (cases b)
  obtain sp stagger where sp: "stagger_pause env idx prev entry = (sp, stagger)"
    by (cases "stagger_pause env idx prev entry")
  show ?case
  proof (cases sp)
    case (Raise e)
    with Cons.prems b sp show ?thesis by auto
  next
    case (Normal u)
    obtain x1 result' st' acts where one:
      "flash_one env amb st idx entry result = (x1, result', st', acts)"
      by (cases "flash_one env amb st idx entry result")
    show ?thesis
    proof (cases x1)
      case (Some e)
      with Cons.prems b sp Normal one show ?thesis by auto
    next
      case None
      obtain x2 results2 trail2 where rec:
        "flash_loop env amb (Suc idx) (Some result') st' built = (x2, results2, trail2)"
        by (cases "flash_loop env amb (Suc idx) (Some result') st' built")
      from Cons.prems b sp Normal one None rec
      have "trail = map (Pair idx) (stagger @ acts) @ trail2" and "x = x2"
        by simp_all
      with Cons.IH [OF rec] show ?thesis by fastforce
    qed
  qed
qed

lemma flash_loop_ambiguous:
  "i < length built \<Longrightarrow> built ! i = (entry, result) \<Longrightarrow> key entry \<in> amb \<Longrightarrow>
   \<not> is_can_device entry \<Longrightarrow>
   flash_loop env amb idx prev st built = (x, results, trail) \<Longrightarrow>
     (\<forall>a. (idx + i, a) \<in> set trail \<longrightarrow> is_stagger a) \<and>
     results ! i =
       (if reached_end_of x (idx + i)
        then failed_with result ''Pattern matches multiple connected USB devices''
        else result)"
proof (induction built arbitrary: i idx prev st x results trail)
  case Nil
  then show ?case by simp
next
  case (Cons b built)
  obtain entry0 result0 where b: "b = (entry0, result0)" by (cases b)
  obtain sp stagger where sp: "stagger_pause env idx prev entry0 = (sp, stagger)"
    by (cases "stagger_pause env idx prev entry0")
  note stg = stagger_pause_actions [OF sp]
  from Cons.prems(1,2) have unchanged: "(result0 # map snd built) ! i = result"
    using b by (cases i) auto
  show ?case
  proof (cases sp)
    case (Raise e)
    with Cons.prems(5) b sp
    have "x = Some (idx, e)" "results = result0 # map snd built"
      "trail = map (Pair idx) stagger"
      by simp_all
    with stg unchanged show ?thesis by (auto simp: reached_end_of_def)
  next
    case (Normal u)
    obtain x1 result' st' acts where one:
      "flash_one env amb st idx entry0 result0 = (x1, result', st', acts)"
      by (cases "flash_one env amb st idx entry0 result0")
    show ?thesis
    proof (cases i)
      case 0
      with Cons.prems b have e: "entry0 = entry" "result0 = result" by auto
      from one e flash_one_ambiguous [OF Cons.prems(3,4), of env st idx result]
      have o: "x1 = None" "acts = []"
        "result' = failed_with result ''Pattern matches multiple connected USB devices''"
        by simp_all
      obtain x2 results2 trail2 where rec:
        "flash_loop env amb (Suc idx) (Some result') st' built = (x2, results2, trail2)"
        by (cases "flash_loop env amb (Suc idx) (Some result') st' built")
      from Cons.prems(5) b sp Normal one o rec
      have trail: "trail = map (Pair idx) stagger @ trail2"
        and res: "results = result' # results2" and x: "x = x2"
        by simp_all
      from flash_loop_tags [OF rec]
      have t2: "\<forall>j a. (j, a) \<in> set trail2 \<longrightarrow> Suc idx \<le> j"
        and x2: "\<forall>j e. x2 = Some (j, e) \<longrightarrow> Suc idx \<le> j"
        by simp_all
      have "is_stagger a" if "(idx, a) \<in> set trail" for a
      proof -
        from that trail have "a \<in> set stagger \<or> (idx, a) \<in> set trail2" by auto
        moreover have "(idx, a) \<notin> set trail2" using t2 by fastforce
        ultimately show ?thesis using stg by auto
      qed
      moreover have "reached_end_of x idx"
        using x x2 by (cases x2) (auto simp: reached_end_of_def)
      ultimately show ?thesis using 0 res o by simp
    next
      case (Suc i')
      with Cons.prems have i': "i' < length built" "built ! i' = (entry, result)" by auto
      show ?thesis
      proof (cases x1)
        case (Some e)
        with Cons.prems(5) b sp Normal one
        have "x = Some (idx, e)" "results = result' # map snd built"
          "trail = map (Pair idx) (stagger @ acts)"
          by simp_all
        with Suc i' show ?thesis by (auto simp: reached_end_of_def)
      next
        case None
        obtain x2 results2 trail2 where rec:
          "flash_loop env amb (Suc idx) (Some result') st' built = (x2, results2, trail2)"
          by (cases "flash_loop env amb (Suc idx) (Some result') st' built")
        from Cons.prems(5) b sp Normal one None rec
        have trail: "trail = map (Pair idx) (stagger @ acts) @ trail2"
          and res: "results = result' # results2" and x: "x = x2"
          by simp_all
        from Cons.IH [OF i' Cons.prems(3,4) rec]
        have ih: "\<forall>a. (Suc idx + i', a) \<in> set trail2 \<longrightarrow> is_stagger a"
          "results2 ! i' =
             (if reached_end_of x2 (Suc idx + i')
              then failed_with result ''Pattern matches multiple connected USB devices''
              else result)"
          by auto
        have "is_stagger a" if "(idx + i, a) \<in> set trail" for a
        proof -
          from that trail Suc have "(Suc idx + i', a) \<in> set trail2" by auto
          with ih show ?thesis by blast
        qed
        with ih res x Suc show ?thesis by simp
      qed
    qed
  qed
qed

lemma ambiguous_key_member:
  "(entry, result) \<in> set built \<Longrightarrow> serial_pattern entry = Some pat \<Longrightarrow>
   length (match_devices pat devices) > 1 \<Longrightarrow> key entry \<in> ambiguous_keys built devices"
  by (force simp: ambiguous_keys_def is_ambiguous_def)

text \<open>
  What the ambiguity guard achieves. Take a USB registration of the batch whose pattern
  matches more than one endpoint of the listing taken when the guarded scope is entered.
  Whatever the collaborators return or raise, the only actions logged for its position
  are stagger sleeps (no preflight, no bootloader entry, no transfer, no verification,
  no timestamp); and its batch result is the one it had before, with the error message
  set to the ambiguity message once the loop has dealt with it.
\<close>

lemma initial_duplicates_are_skipped:
  assumes "i < length built_results" and "built_results ! i = (entry, result)"
    and "serial_pattern entry = Some pat" and "canbus_uuid entry = None"
    and "scan_results env 0 = Normal devices"
    and "length (match_devices pat devices) > 1"
  shows "case flash_all_devices env built_results of
           (x, results, trail) \<Rightarrow>
             (\<forall>a. (i, a) \<in> set trail \<longrightarrow> is_stagger a) \<and>
             results ! i =
               (if reached_end_of x i
                then result\<lparr>error_message :=
                              Some ''Pattern matches multiple connected USB devices''\<rparr>
                else result)"
proof -
  let ?amb = "ambiguous_keys built_results devices"
  let ?st = "\<lparr>usb_devices = devices, scans_done = 1, used_paths = {},
            preflight_cache = Map.empty, can_preflight_cache = Map.empty\<rparr>"
  from assms(1,2) have mem: "(entry, result) \<in> set built_results"
    by (metis nth_mem)
  from ambiguous_key_member [OF mem assms(3,6)] have k: "key entry \<in> ?amb" .
  from assms(4) have nc: "\<not> is_can_device entry" by (simp add: is_can_device_def)
  obtain x results trail where run:
    "flash_loop env ?amb 0 None ?st built_results = (x, results, trail)"
    by (cases "flash_loop env ?amb 0 None ?st built_results")
  from flash_loop_ambiguous [OF assms(1,2) k nc run] assms(5) run
  show ?thesis
    by (simp add: flash_all_devices_def failed_with_def)
qed

lemma sample_fields:
  "key pico_board = ''pico-a''" "canbus_uuid pico_board = None"
  "serial_pattern pico_board = Some pico_family_pattern"
  "flash_command pico_board = Some ''katapult''" "bootloader_method pico_board = Some ''usb''"
  "mcu pico_board = ''rp2040''"
  "key octopus = ''octopus-pro''" "canbus_uuid octopus = None"
  "serial_pattern octopus = Some ''usb-Klipper_stm32h723xx_29001A*''"
  "flash_command octopus = Some ''katapult''" "bootloader_method octopus = Some ''usb''"
  "mcu octopus = ''stm32h723''"
  by (simp_all add: pico_board_def octopus_def)

lemma octopus_dev_fields:
  "path octopus_dev = ''/dev/serial/by-id/usb-Klipper_stm32h723xx_29001A-if00''"
  "filename octopus_dev = ''usb-Klipper_stm32h723xx_29001A-if00''"
  by (simp_all add: match_eval octopus_dev_def octopus_klipper_name_def)

lemma family_filenames:
  "filename pico1 = ''usb-Klipper_rp2040_E661-if00''"
  "filename pico2 = ''usb-Klipper_rp2040_E662-if00''"
  "filename pico1_boot = ''usb-katapult_rp2040_E661-if00''"
  by (simp_all add: pico1_def pico2_def pico1_boot_def dev_def)

lemma octopus_matching:
  "matches_variant ''usb-Klipper_stm32h723xx_29001A*'' octopus_dev"
  "\<not> matches_variant pico_family_pattern octopus_dev"
  "\<not> matches_variant ''usb-Klipper_stm32h723xx_29001A*'' pico1"
  "\<not> matches_variant ''usb-Klipper_stm32h723xx_29001A*'' pico2"
  "\<not> matches_variant ''usb-Klipper_stm32h723xx_29001A*'' pico1_boot"
  by (simp_all add: match_eval octopus_dev_def octopus_klipper_name_def pico_family_pattern_def
        pico1_def pico2_def pico1_boot_def)

lemma cooperative_fields:
  "scan_results (cooperative_env listing) n = Normal (listing n)"
  "sleep_outcome (cooperative_env listing) idx = Normal ()"
  "config_issue_of (cooperative_env listing) entry = None"
  "flash_preflight_of (cooperative_env listing) m = Normal True"
  "bootloader_outcome (cooperative_env listing) idx entry p =
     Normal \<lparr>boot_success = True, boot_device_path = Some p, boot_error_message = None\<rparr>"
  "transfer_outcome (cooperative_env listing) idx = (\<lambda>c. Normal (always_ok c))"
  "usb_verify_outcome (cooperative_env listing) idx pat = Normal (True, None, None)"
  "update_device_outcome (cooperative_env listing) idx k = Normal True"
  "realpath_of (cooperative_env listing) p = p"
  "mcu_of_filename (cooperative_env listing) f = None"
  "temp_dir (cooperative_env listing) = ''/tmp/kalico-flash-x''"
  "batch_config (cooperative_env listing) = sample_config"
  by (simp_all add: cooperative_env_def)

lemma katapult_transfer:
  "flash_command entry = Some ''katapult'' \<Longrightarrow>
   execute_flash_call (\<lambda>c. Normal (always_ok c)) entry device_path firmware_path config timeout =
     Normal \<lparr>flash_success = True, flash_method = ''katapult'', flash_elapsed_seconds = 12,
             flash_error_message = None\<rparr>"
  by (simp add: execute_flash_call_def execute_flash_def always_ok_def)

lemma cooperative_usb_flash:
  "flash_command entry = Some ''katapult'' \<Longrightarrow>
   usb_flash_and_verify (cooperative_env listing) st idx entry result boot_path acts =
     (None, result\<lparr>flash_ok := True, verify_ok := True\<rparr>,
      st\<lparr>usb_devices := listing (scans_done st), scans_done := Suc (scans_done st)\<rparr>,
      acts @ [Act_execute_flash boot_path, Act_verify, Act_record_timestamp, Act_rescan])"
  by (simp add: usb_flash_and_verify_def cooperative_fields katapult_transfer Let_def)

lemma stagger_after_flash:
  "should_apply_flash_all_stagger (Some (result\<lparr>bootloader_ok := True, flash_ok := f, verify_ok := v\<rparr>))"
  by (simp add: should_apply_flash_all_stagger_def)

text \<open>
  Two runs on \<open>sample_batch_env\<close>, where the pattern of \<open>pico-a\<close> matches an endpoint in
  bootloader mode and one in normal mode from the start. In the first run the mainboard
  is flashed and \<open>pico-a\<close> is skipped after the stagger pause. In the second run Ctrl-C
  during the verification of the mainboard ends the loop, and the result of \<open>pico-a\<close>
  stays as it was.
\<close>

lemma initial_duplicate_example:
  "map filename (match_devices pico_family_pattern [octopus_dev, pico1_boot, pico2])
     = [''usb-katapult_rp2040_E661-if00'', ''usb-Klipper_rp2040_E662-if00''] \<and>
   flash_all_devices sample_batch_env late_batch
     = (None,
        [(fresh_result octopus)\<lparr>bootloader_ok := True, flash_ok := True, verify_ok := True\<rparr>,
         (fresh_result pico_board)
           \<lparr>error_message := Some ''Pattern matches multiple connected USB devices''\<rparr>],
        [(0, Act_flash_preflight (Some ''katapult'')),
         (0, Act_enter_bootloader ''/dev/serial/by-id/usb-Klipper_stm32h723xx_29001A-if00''),
         (0, Act_execute_flash ''/dev/serial/by-id/usb-Klipper_stm32h723xx_29001A-if00''),
         (0, Act_verify), (0, Act_record_timestamp), (0, Act_rescan),
         (1, Act_stagger_sleep 2)])"
proof -
  have m: "match_devices pico_family_pattern [octopus_dev, pico1_boot, pico2] = [pico1_boot, pico2]"
    "match_devices ''usb-Klipper_stm32h723xx_29001A*'' [octopus_dev, pico1_boot, pico2]
       = [octopus_dev]"
    by (simp_all add: match_devices_def pico_family_matches octopus_matching)
  have amb: "ambiguous_keys [(octopus, fresh_result octopus),
                (pico_board, fresh_result pico_board)] [octopus_dev, pico1_boot, pico2]
              = {''pico-a''}"
    by (simp add: ambiguous_keys_def is_ambiguous_def sample_fields m)
  have s: "scan_results sample_batch_env 0 = Normal [octopus_dev, pico1_boot, pico2]"
    by (simp add: sample_batch_env_def cooperative_fields)
  have run: "flash_all_devices sample_batch_env late_batch
     = (None,
        [(fresh_result octopus)\<lparr>bootloader_ok := True, flash_ok := True, verify_ok := True\<rparr>,
         failed_with (fresh_result pico_board)
           ''Pattern matches multiple connected USB devices''],
        [(0, Act_flash_preflight (Some ''katapult'')),
         (0, Act_enter_bootloader ''/dev/serial/by-id/usb-Klipper_stm32h723xx_29001A-if00''),
         (0, Act_execute_flash ''/dev/serial/by-id/usb-Klipper_stm32h723xx_29001A-if00''),
         (0, Act_verify), (0, Act_record_timestamp), (0, Act_rescan),
         (1, Act_stagger_sleep 2)])"
    unfolding flash_all_devices_def s
    by (simp add: amb late_batch_def sample_batch_env_def flash_one_def usb_step_def
          usb_pipeline_def is_can_device_def sample_fields match_device_def m
          cooperative_fields cached_flash_preflight_def cooperative_usb_flash
          stagger_pause_def stagger_after_flash sample_config_def octopus_dev_fields
          or_default_def Let_def)
  from m run show ?thesis by (simp add: family_filenames failed_with_def)
qed

lemma interrupt_ends_the_loop:
  "flash_all_devices interrupted_env late_batch
     = (Some (0, KeyboardInterrupt),
        [(fresh_result octopus)\<lparr>bootloader_ok := True, flash_ok := True\<rparr>,
         fresh_result pico_board],
        [(0, Act_flash_preflight (Some ''katapult'')),
         (0, Act_enter_bootloader ''/dev/serial/by-id/usb-Klipper_stm32h723xx_29001A-if00''),
         (0, Act_execute_flash ''/dev/serial/by-id/usb-Klipper_stm32h723xx_29001A-if00''),
         (0, Act_verify)])"
proof -
  have m: "match_devices pico_family_pattern [octopus_dev, pico1_boot, pico2] = [pico1_boot, pico2]"
    "match_devices ''usb-Klipper_stm32h723xx_29001A*'' [octopus_dev, pico1_boot, pico2]
       = [octopus_dev]"
    by (simp_all add: match_devices_def pico_family_matches octopus_matching)
  have amb: "ambiguous_keys [(octopus, fresh_result octopus),
                (pico_board, fresh_result pico_board)] [octopus_dev, pico1_boot, pico2]
              = {''pico-a''}"
    by (simp add: ambiguous_keys_def is_ambiguous_def sample_fields m)
  have s: "scan_results interrupted_env 0 = Normal [octopus_dev, pico1_boot, pico2]"
    by (simp add: interrupted_env_def sample_batch_env_def cooperative_fields)
  show ?thesis
    unfolding flash_all_devices_def s
    by (simp add: amb late_batch_def interrupted_env_def sample_batch_env_def flash_one_def
          usb_step_def usb_pipeline_def usb_flash_and_verify_def is_can_device_def
          sample_fields match_device_def m cooperative_fields cached_flash_preflight_def
          katapult_transfer stagger_pause_def sample_config_def octopus_dev_fields
          or_default_def Let_def)
qed

text \<open>
  Claim C6. A registration whose pattern matches more than one attached endpoint is to be
  skipped, with no match selected. The sequencer decides which registrations are
  ambiguous once, on the listing taken when the guarded scope is entered, while
  \<open>match_device\<close> selects from the listing taken after the last transfer. On \<open>late_env\<close>
  the pattern of \<open>pico-a\<close> matches one endpoint of the first listing and two endpoints
  of the second one, which is the current listing when \<open>pico-a\<close> is reached. The
  sequencer does not mark the registration, takes the first of the two matches, enters
  the bootloader at its path, transfers, verifies and records the timestamp, and the
  batch result of \<open>pico-a\<close> carries no error message.
\<close>

theorem late_duplicate_is_flashed:
  "scan_results late_env 0 = Normal [octopus_dev, pico1] \<and>
   scan_results late_env 1 = Normal [octopus_dev, pico1, pico2] \<and>
   map filename (match_devices pico_family_pattern [octopus_dev, pico1])
     = [''usb-Klipper_rp2040_E661-if00''] \<and>
   map filename (match_devices pico_family_pattern [octopus_dev, pico1, pico2])
     = [''usb-Klipper_rp2040_E661-if00'', ''usb-Klipper_rp2040_E662-if00''] \<and>
   flash_all_devices late_env late_batch
     = (None,
        [(fresh_result octopus)\<lparr>bootloader_ok := True, flash_ok := True, verify_ok := True\<rparr>,
         (fresh_result pico_board)\<lparr>bootloader_ok := True, flash_ok := True,
                                    verify_ok := True\<rparr>],
        [(0, Act_flash_preflight (Some ''katapult'')),
         (0, Act_enter_bootloader ''/dev/serial/by-id/usb-Klipper_stm32h723xx_29001A-if00''),
         (0, Act_execute_flash ''/dev/serial/by-id/usb-Klipper_stm32h723xx_29001A-if00''),
         (0, Act_verify), (0, Act_record_timestamp), (0, Act_rescan),
         (1, Act_stagger_sleep 2),
         (1, Act_enter_bootloader ''/dev/serial/by-id/usb-Klipper_rp2040_E661-if00''),
         (1, Act_execute_flash ''/dev/serial/by-id/usb-Klipper_rp2040_E661-if00''),
         (1, Act_verify), (1, Act_record_timestamp), (1, Act_rescan)])"
proof -
  have s: "scan_results late_env 0 = Normal [octopus_dev, pico1]"
    "scan_results late_env 1 = Normal [octopus_dev, pico1, pico2]"
    by (simp_all add: late_env_def cooperative_fields)
  have m: "match_devices pico_family_pattern [octopus_dev, pico1] = [pico1]"
    "match_devices pico_family_pattern [octopus_dev, pico1, pico2] = [pico1, pico2]"
    "match_devices ''usb-Klipper_stm32h723xx_29001A*'' [octopus_dev, pico1] = [octopus_dev]"
    by (simp_all add: match_devices_def pico_family_matches octopus_matching)
  have amb: "ambiguous_keys [(octopus, fresh_result octopus),
                (pico_board, fresh_result pico_board)] [octopus_dev, pico1] = {}"
    by (simp add: ambiguous_keys_def is_ambiguous_def sample_fields m)
  have run: "flash_all_devices late_env late_batch
     = (None,
        [(fresh_result octopus)\<lparr>bootloader_ok := True, flash_ok := True, verify_ok := True\<rparr>,
         (fresh_result pico_board)\<lparr>bootloader_ok := True, flash_ok := True,
                                    verify_ok := True\<rparr>],
        [(0, Act_flash_preflight (Some ''katapult'')),
         (0, Act_enter_bootloader ''/dev/serial/by-id/usb-Klipper_stm32h723xx_29001A-if00''),
         (0, Act_execute_flash ''/dev/serial/by-id/usb-Klipper_stm32h723xx_29001A-if00''),
         (0, Act_verify), (0, Act_record_timestamp), (0, Act_rescan),
         (1, Act_stagger_sleep 2),
         (1, Act_enter_bootloader ''/dev/serial/by-id/usb-Klipper_rp2040_E661-if00''),
         (1, Act_execute_flash ''/dev/serial/by-id/usb-Klipper_rp2040_E661-if00''),
         (1, Act_verify), (1, Act_record_timestamp), (1, Act_rescan)])"
    unfolding flash_all_devices_def s
    by (simp add: amb late_batch_def late_env_def flash_one_def usb_step_def usb_pipeline_def
          is_can_device_def sample_fields match_device_def m cooperative_fields
          cached_flash_preflight_def cooperative_usb_flash stagger_pause_def
          stagger_after_flash sample_config_def sample_paths octopus_dev_fields
          or_default_def Let_def)
  from s m run show ?thesis by (simp add: family_filenames)
qed

end
